theory Spec2Isabelle
  imports Main "HOL-Library.Finite_Map" "HOL-Library.Word"
begin

section \<open>Record store (database.py)\<close>

text \<open>
  The store is one JSON document with the keys \<open>users\<close> and \<open>shared_folders\<close>.
  A Python dict is a finite map. The code reads \<open>data['users']\<close> directly, and reads
  the folders with \<open>data.get('shared_folders', {})\<close>, so the second key may be
  missing from a parsed document: it is an option here. A string is a list of
  characters with codes below 256.
\<close>

record user =
  email :: string
  salt :: string
  password :: string
  created_at :: string
  last_active :: string
  storage_used :: int
  storage_limit :: int

record shared_folder =
  folder_name :: string
  owner :: string
  shared_with :: "string list"
  folder_created_at :: string

record document =
  users :: "(string, user) fmap"
  shared_folders :: "(string, shared_folder) fmap option"

text \<open>
  A store file is classified by what \<open>open(db_file, 'r')\<close> and \<open>json.load\<close> do with its
  bytes: bytes that are not text in the encoding of the file (reading raises
  \<open>UnicodeDecodeError\<close>), text that \<open>json.load\<close> rejects (\<open>JSONDecodeError\<close>), JSON text
  nested deeper than the recursion limit of the interpreter (\<open>RecursionError\<close>), and text
  that parses to a document. JSON text of another shape is not modelled: \<open>init_db\<close> and
  \<open>save_db\<close>, the writers of the file, do not produce it. The file system of the store
  maps a path to the content of the file there. Permissions are not modelled.
\<close>

datatype file_content =
    Undecodable string
  | NotJson string
  | TooDeep string
  | Json document

type_synonym store_fs = "(string, file_content) fmap"

datatype exc = FileNotFoundError | JSONDecodeError | UnicodeDecodeError | RecursionError

definition empty_document :: document where
  "empty_document = \<lparr>users = fmempty, shared_folders = Some fmempty\<rparr>"

definition init_db :: "store_fs \<Rightarrow> string \<Rightarrow> store_fs" where
  "init_db fs db_file =
     (if db_file |\<in>| fmdom fs then fs else fmupd db_file (Json empty_document) fs)"

text \<open>\<open>open(db_file, 'r')\<close> followed by \<open>json.load\<close>: the exception or the document.\<close>

definition read_json :: "store_fs \<Rightarrow> string \<Rightarrow> exc + document" where
  "read_json fs db_file =
     (case fmlookup fs db_file of
        None \<Rightarrow> Inl FileNotFoundError
      | Some (Undecodable _) \<Rightarrow> Inl UnicodeDecodeError
      | Some (NotJson _) \<Rightarrow> Inl JSONDecodeError
      | Some (TooDeep _) \<Rightarrow> Inl RecursionError
      | Some (Json d) \<Rightarrow> Inr d)"

text \<open>
  \<open>load_db\<close> returns the file system too, since its \<open>except\<close> branch calls
  \<open>init_db\<close>. The \<open>except\<close> clause names \<open>FileNotFoundError\<close> and \<open>JSONDecodeError\<close>;
  any other exception of the read goes on to the caller.
\<close>

definition load_db :: "store_fs \<Rightarrow> string \<Rightarrow> exc + store_fs \<times> document" where
  "load_db fs db_file =
     (case read_json fs db_file of
        Inr d \<Rightarrow> Inr (fs, d)
      | Inl e \<Rightarrow>
          if e = FileNotFoundError \<or> e = JSONDecodeError then
            Inr (init_db fs db_file, empty_document)
          else Inl e)"

definition backup_path :: "string \<Rightarrow> string" where
  "backup_path db_file = db_file @ ''.backup''"

text \<open>
  \<open>save_db\<close> copies the text of an existing file to the backup inside \<open>try\<close> with a bare
  \<open>except: pass\<close>: where the text cannot be read, no backup is written.
\<close>

definition save_db :: "store_fs \<Rightarrow> string \<Rightarrow> document \<Rightarrow> store_fs" where
  "save_db fs db_file data =
     (let fs1 = (case fmlookup fs db_file of
                   None \<Rightarrow> fs
                 | Some (Undecodable _) \<Rightarrow> fs
                 | Some backup_data \<Rightarrow> fmupd (backup_path db_file) backup_data fs)
      in fmupd db_file (Json data) fs1)"

text \<open>
  \<open>create_user\<close> calls \<open>datetime.now()\<close> twice; \<open>t_created\<close> and \<open>t_active\<close>
  are the two readings, in the order of the calls.
\<close>

definition create_user ::
  "store_fs \<Rightarrow> string \<Rightarrow> string \<Rightarrow> string \<Rightarrow> string \<Rightarrow> string \<Rightarrow> int \<Rightarrow> string \<Rightarrow> string
     \<Rightarrow> exc + store_fs \<times> bool \<times> string" where
  "create_user fs db_file username email' salt' hashed_password storage_limit' t_created t_active =
     (case load_db fs db_file of
        Inl e \<Rightarrow> Inl e
      | Inr (fs1, data) \<Rightarrow>
          if username |\<in>| fmdom (users data) then Inr (fs1, False, ''Username already exists'')
          else if fcard (fmdom (users data)) \<ge> 10 then
            Inr (fs1, False, ''Maximum number of users reached'')
          else
            Inr (save_db fs1 db_file
                   (data\<lparr>users := fmupd username
                      \<lparr>email = email', salt = salt', password = hashed_password,
                       created_at = t_created, last_active = t_active,
                       storage_used = 0, storage_limit = storage_limit'\<rparr> (users data)\<rparr>),
                 True, ''User created successfully''))"

definition get_user :: "store_fs \<Rightarrow> string \<Rightarrow> string \<Rightarrow> exc + store_fs \<times> user option" where
  "get_user fs db_file username =
     (case load_db fs db_file of
        Inl e \<Rightarrow> Inl e
      | Inr (fs1, data) \<Rightarrow> Inr (fs1, fmlookup (users data) username))"



definition folders_of :: "document \<Rightarrow> (string, shared_folder) fmap" where
  "folders_of data = (case shared_folders data of None \<Rightarrow> fmempty | Some m \<Rightarrow> m)"

definition create_shared_folder ::
  "store_fs \<Rightarrow> string \<Rightarrow> string \<Rightarrow> string \<Rightarrow> string \<Rightarrow> string list \<Rightarrow> string
     \<Rightarrow> exc + store_fs" where
  "create_shared_folder fs db_file folder_id folder_name' owner' shared_with' now =
     (case load_db fs db_file of
        Inl e \<Rightarrow> Inl e
      | Inr (fs1, data) \<Rightarrow>
          (let data1 = (if shared_folders data = None
                        then data\<lparr>shared_folders := Some fmempty\<rparr> else data)
           in Inr (save_db fs1 db_file
                     (data1\<lparr>shared_folders := Some (fmupd folder_id
                        \<lparr>folder_name = folder_name', owner = owner', shared_with = shared_with',
                         folder_created_at = now\<rparr> (folders_of data1))\<rparr>))))"

definition get_shared_folder ::
  "store_fs \<Rightarrow> string \<Rightarrow> string \<Rightarrow> exc + store_fs \<times> shared_folder option" where
  "get_shared_folder fs db_file folder_id =
     (case load_db fs db_file of
        Inl e \<Rightarrow> Inl e
      | Inr (fs1, data) \<Rightarrow> Inr (fs1, fmlookup (folders_of data) folder_id))"

definition delete_shared_folder ::
  "store_fs \<Rightarrow> string \<Rightarrow> string \<Rightarrow> exc + store_fs \<times> bool" where
  "delete_shared_folder fs db_file folder_id =
     (case load_db fs db_file of
        Inl e \<Rightarrow> Inl e
      | Inr (fs1, data) \<Rightarrow>
          if folder_id |\<in>| fmdom (folders_of data) then
            Inr (save_db fs1 db_file
                   (data\<lparr>shared_folders := Some (fmdrop folder_id (folders_of data))\<rparr>), True)
          else Inr (fs1, False))"

definition can_access_folder ::
  "store_fs \<Rightarrow> string \<Rightarrow> string \<Rightarrow> string \<Rightarrow> exc + store_fs \<times> bool" where
  "can_access_folder fs db_file username folder_id =
     (case get_shared_folder fs db_file folder_id of
        Inl e \<Rightarrow> Inl e
      | Inr (fs1, None) \<Rightarrow> Inr (fs1, False)
      | Inr (fs1, Some f) \<Rightarrow> Inr (fs1, owner f = username \<or> username \<in> set (shared_with f)))"

section \<open>Configuration (config.py)\<close>

text \<open>
  \<open>os.environ\<close> is a finite map from names to strings. Python's builtin \<open>int\<close> is a
  parameter \<open>int_of\<close>: it gives \<open>None\<close> where \<open>int\<close> raises \<open>ValueError\<close>. The value of
  \<open>os.urandom(32).hex()\<close> is the parameter \<open>urandom_hex\<close>.
\<close>

type_synonym environ = "(string, string) fmap"

datatype config_exc = ValueError | OverflowError

record app_config =
  SECRET_KEY :: "string option"
  UPLOAD_FOLDER :: string
  SHARED_FOLDER :: string
  DATABASE_FILE :: string
  SESSION_COOKIE_SECURE :: bool
  PERMANENT_SESSION_LIFETIME_HOURS :: int
  MAX_USERS :: int
  STORAGE_LIMIT_PER_USER :: int
  HOST :: string
  PORT :: int
  DEBUG :: bool

text \<open>\<open>os.environ.get(k) or dflt\<close>: an unset or empty variable gives the default.\<close>

definition env_or :: "environ \<Rightarrow> string \<Rightarrow> string \<Rightarrow> string" where
  "env_or env k dflt =
     (case fmlookup env k of None \<Rightarrow> dflt | Some v \<Rightarrow> if v = [] then dflt else v)"

text \<open>\<open>os.environ.get(k, dflt)\<close>.\<close>

definition env_get :: "environ \<Rightarrow> string \<Rightarrow> string \<Rightarrow> string" where
  "env_get env k dflt = (case fmlookup env k of None \<Rightarrow> dflt | Some v \<Rightarrow> v)"

text \<open>\<open>int(os.environ.get(k, dflt))\<close> with an integer default.\<close>

definition env_int ::
  "(string \<Rightarrow> int option) \<Rightarrow> environ \<Rightarrow> string \<Rightarrow> int \<Rightarrow> config_exc + int" where
  "env_int int_of env k dflt =
     (case fmlookup env k of
        None \<Rightarrow> Inr dflt
      | Some v \<Rightarrow> (case int_of v of None \<Rightarrow> Inl ValueError | Some n \<Rightarrow> Inr n))"

text \<open>\<open>str.lower\<close> on characters with codes below 256.\<close>

definition lower_char :: "char \<Rightarrow> char" where
  "lower_char c =
     (case map_of (zip (''ABCDEFGHIJKLMNOPQRSTUVWXYZ'' @
                          [CHR 0xC0, CHR 0xC1, CHR 0xC2, CHR 0xC3, CHR 0xC4, CHR 0xC5, CHR 0xC6, CHR 0xC7,
                           CHR 0xC8, CHR 0xC9, CHR 0xCA, CHR 0xCB, CHR 0xCC, CHR 0xCD, CHR 0xCE, CHR 0xCF,
                           CHR 0xD0, CHR 0xD1, CHR 0xD2, CHR 0xD3, CHR 0xD4, CHR 0xD5, CHR 0xD6, CHR 0xD8,
                           CHR 0xD9, CHR 0xDA, CHR 0xDB, CHR 0xDC, CHR 0xDD, CHR 0xDE])
                       (''abcdefghijklmnopqrstuvwxyz'' @
                          [CHR 0xE0, CHR 0xE1, CHR 0xE2, CHR 0xE3, CHR 0xE4, CHR 0xE5, CHR 0xE6, CHR 0xE7,
                           CHR 0xE8, CHR 0xE9, CHR 0xEA, CHR 0xEB, CHR 0xEC, CHR 0xED, CHR 0xEE, CHR 0xEF,
                           CHR 0xF0, CHR 0xF1, CHR 0xF2, CHR 0xF3, CHR 0xF4, CHR 0xF5, CHR 0xF6, CHR 0xF8,
                           CHR 0xF9, CHR 0xFA, CHR 0xFB, CHR 0xFC, CHR 0xFD, CHR 0xFE])) c of
        None \<Rightarrow> c
      | Some l \<Rightarrow> l)"

definition lower :: "string \<Rightarrow> string" where
  "lower s = map lower_char s"

text \<open>
  \<open>timedelta(hours=h)\<close> raises \<open>OverflowError\<close> outside the range of \<open>timedelta\<close>, which
  ends at 999999999 days, 23 hours and the rest of that hour, and begins at
  -999999999 days.
\<close>

definition timedelta_hours :: "int \<Rightarrow> config_exc + int" where
  "timedelta_hours h =
     (if - 23999999976 \<le> h \<and> h \<le> 23999999999 then Inr h else Inl OverflowError)"

text \<open>The body of class \<open>Config\<close>, evaluated when the module is imported.\<close>

definition Config ::
  "(string \<Rightarrow> int option) \<Rightarrow> environ \<Rightarrow> string \<Rightarrow> config_exc + app_config" where
  "Config int_of env urandom_hex =
     (case env_int int_of env ''SESSION_LIFETIME_HOURS'' 1 of Inl e \<Rightarrow> Inl e | Inr h \<Rightarrow>
     (case timedelta_hours h of Inl e \<Rightarrow> Inl e | Inr hours \<Rightarrow>
     (case env_int int_of env ''MAX_USERS'' 10 of Inl e \<Rightarrow> Inl e | Inr max_users \<Rightarrow>
     (case env_int int_of env ''STORAGE_LIMIT_GB'' 10 of Inl e \<Rightarrow> Inl e | Inr gb \<Rightarrow>
     (case env_int int_of env ''PORT'' 5000 of Inl e \<Rightarrow> Inl e | Inr port \<Rightarrow>
        Inr \<lparr>SECRET_KEY = Some (env_or env ''SECRET_KEY'' urandom_hex),
             UPLOAD_FOLDER = env_or env ''UPLOAD_FOLDER'' ''user_storage'',
             SHARED_FOLDER = env_or env ''SHARED_FOLDER'' ''shared_storage'',
             DATABASE_FILE = env_or env ''DATABASE_FILE'' ''users.json'',
             SESSION_COOKIE_SECURE = False,
             PERMANENT_SESSION_LIFETIME_HOURS = hours,
             MAX_USERS = max_users,
             STORAGE_LIMIT_PER_USER = gb * 1024 * 1024 * 1024,
             HOST = env_get env ''HOST'' ''0.0.0.0'',
             PORT = port,
             DEBUG = (lower (env_get env ''DEBUG'' ''False'') = ''true'')\<rparr>)))))"

datatype config_class = DevelopmentConfig | ProductionConfig | TestingConfig

text \<open>
  The attributes a subclass overrides. In \<open>ProductionConfig\<close> the test of \<open>SECRET_KEY\<close>
  and its \<open>raise ValueError\<close> are commented out in the source, so the class body only
  reads the variable.
\<close>

definition class_attributes :: "config_class \<Rightarrow> environ \<Rightarrow> app_config \<Rightarrow> app_config" where
  "class_attributes cls env base =
     (case cls of
        DevelopmentConfig \<Rightarrow> base\<lparr>DEBUG := True, SESSION_COOKIE_SECURE := False\<rparr>
      | ProductionConfig \<Rightarrow>
          base\<lparr>DEBUG := False, SESSION_COOKIE_SECURE := True,
               SECRET_KEY := fmlookup env ''SECRET_KEY''\<rparr>
      | TestingConfig \<Rightarrow> base\<lparr>DEBUG := True\<rparr>)"

text \<open>The dictionary \<open>config\<close> and \<open>get_config\<close>.\<close>

definition config_dict :: "string \<Rightarrow> config_class option" where
  "config_dict k =
     (if k = ''development'' then Some DevelopmentConfig
      else if k = ''production'' then Some ProductionConfig
      else if k = ''testing'' then Some TestingConfig
      else if k = ''default'' then Some DevelopmentConfig
      else None)"

definition get_config :: "environ \<Rightarrow> config_class" where
  "get_config env =
     (case config_dict (env_get env ''FLASK_ENV'' ''development'') of
        None \<Rightarrow> DevelopmentConfig
      | Some cls \<Rightarrow> cls)"

text \<open>
  Importing \<open>config\<close> and \<open>app.config.from_object(get_config())\<close>: the configuration the
  application runs with, or the exception of the import.
\<close>

definition load_config ::
  "(string \<Rightarrow> int option) \<Rightarrow> environ \<Rightarrow> string \<Rightarrow> config_exc + app_config" where
  "load_config int_of env urandom_hex =
     (case Config int_of env urandom_hex of
        Inl e \<Rightarrow> Inl e
      | Inr base \<Rightarrow> Inr (class_attributes (get_config env) env base))"

section \<open>Paths (os.path)\<close>

text \<open>\<open>os.path.join\<close> of two components, as \<open>posixpath\<close> defines it.\<close>

definition path_join :: "string \<Rightarrow> string \<Rightarrow> string" where
  "path_join a b =
     (if b \<noteq> [] \<and> hd b = CHR ''/'' then b
      else if a = [] \<or> last a = CHR ''/'' then a @ b
      else a @ ''/'' @ b)"

definition basename :: "string \<Rightarrow> string" where
  "basename p = rev (takeWhile (\<lambda>c. c \<noteq> CHR ''/'') (rev p))"

fun split_on :: "(char \<Rightarrow> bool) \<Rightarrow> string \<Rightarrow> string list" where
  "split_on P [] = [[]]"
| "split_on P (c # cs) =
     (if P c then [] # split_on P cs
      else (case split_on P cs of [] \<Rightarrow> [[c]] | x # xs \<Rightarrow> (c # x) # xs))"

definition components :: "string \<Rightarrow> string list" where
  "components p = split_on (\<lambda>c. c = CHR ''/'') p"

text \<open>
  Resolving a path as \<open>os.path.normpath\<close> does: the empty and the \<open>.\<close> components
  are dropped, a \<open>..\<close> component leaves the directory reached so far, and where
  there is none to leave it is dropped at the root and kept in a relative path.
\<close>

definition is_abs :: "string \<Rightarrow> bool" where
  "is_abs p = (p \<noteq> [] \<and> hd p = CHR ''/'')"

fun resolve_components :: "bool \<Rightarrow> string list \<Rightarrow> string list \<Rightarrow> string list" where
  "resolve_components ab stack [] = stack"
| "resolve_components ab stack (c # cs) =
     (if c = [] \<or> c = ''.'' then resolve_components ab stack cs
      else if c = ''..'' then
        (if stack \<noteq> [] \<and> last stack \<noteq> ''..'' then resolve_components ab (butlast stack) cs
         else if ab then resolve_components ab stack cs
         else resolve_components ab (stack @ [''..'']) cs)
      else resolve_components ab (stack @ [c]) cs)"

definition resolve :: "string \<Rightarrow> string list" where
  "resolve p = resolve_components (is_abs p) [] (split_on (\<lambda>c. c = CHR ''/'') p)"

text \<open>
  A name resolves inside a directory: the path of the name joined to the directory
  resolves to the resolved directory followed by components that never go up.
\<close>

definition resolves_inside :: "string \<Rightarrow> string \<Rightarrow> bool" where
  "resolves_inside dir name =
     (is_abs (path_join dir name) = is_abs dir \<and>
      take (length (resolve dir)) (resolve (path_join dir name)) = resolve dir \<and>
      ''..'' \<notin> set (drop (length (resolve dir)) (resolve (path_join dir name))))"

section \<open>The blob store\<close>

text \<open>
  The state of the application: the store files, the regular files of the two storage
  roots with their sizes in bytes, and the directories. A file or directory is a node:
  whether its path starts at the root, and the resolved components of the path from the
  root or from the working directory, which is the node with no component. There are
  no symbolic links, and a path from the root and a path from the working directory
  name different nodes. The store files and the storage roots are assumed not to
  overlap.
\<close>

type_synonym node = "bool \<times> string list"

record world =
  store :: store_fs
  blobs :: "(node, int) fmap"
  dirs :: "node fset"

definition node_of :: "string \<Rightarrow> node" where
  "node_of p = (is_abs p, resolve p)"

text \<open>
  Looking a path up component by component, as the operating system does: every
  component, the empty, \<open>.\<close> and \<open>..\<close> ones included, is taken in a directory that
  exists. The result is the components of the node the path names, if the walk gets
  there.
\<close>

fun walk :: "world \<Rightarrow> bool \<Rightarrow> string list \<Rightarrow> string list \<Rightarrow> string list option" where
  "walk w ab stack [] = Some stack"
| "walk w ab stack (c # cs) =
     (if (ab, stack) |\<notin>| dirs w then None
      else if c = [] \<or> c = ''.'' then walk w ab stack cs
      else if c = ''..'' then
        (if stack \<noteq> [] \<and> last stack \<noteq> ''..'' then walk w ab (butlast stack) cs
         else if ab then walk w ab stack cs
         else walk w ab (stack @ [''..'']) cs)
      else walk w ab (stack @ [c]) cs)"

definition lookup_path :: "world \<Rightarrow> string \<Rightarrow> node option" where
  "lookup_path w p =
     (if p = [] then None
      else map_option (Pair (is_abs p)) (walk w (is_abs p) [] (components p)))"

definition is_dir :: "world \<Rightarrow> string \<Rightarrow> bool" where
  "is_dir w p = (case lookup_path w p of None \<Rightarrow> False | Some n \<Rightarrow> n |\<in>| dirs w)"

definition is_file :: "world \<Rightarrow> string \<Rightarrow> bool" where
  "is_file w p = (case lookup_path w p of None \<Rightarrow> False | Some n \<Rightarrow> n |\<in>| fmdom (blobs w))"

text \<open>\<open>os.path.exists\<close> on a path of the storage roots.\<close>

definition path_exists :: "world \<Rightarrow> string \<Rightarrow> bool" where
  "path_exists w p = (is_file w p \<or> is_dir w p)"

text \<open>A node lies in the tree of a directory: it is the directory or below it.\<close>

definition in_tree :: "node \<Rightarrow> node \<Rightarrow> bool" where
  "in_tree d n =
     (fst n = fst d \<and> take (length (snd d)) (snd n) = snd d \<and>
      ''..'' \<notin> set (drop (length (snd d)) (snd n)))"

text \<open>\<open>shutil.rmtree\<close> when nothing stops it: the directory and everything below it go.\<close>

definition rmtree :: "world \<Rightarrow> string \<Rightarrow> world" where
  "rmtree w d =
     w\<lparr>blobs := fmfilter (\<lambda>n. \<not> in_tree (node_of d) n) (blobs w),
       dirs := ffilter (\<lambda>n. \<not> in_tree (node_of d) n) (dirs w)\<rparr>"

text \<open>
  \<open>shutil.rmtree\<close> raises at the first entry it may not remove, and how much of the
  tree is gone by then depends on the order of its walk. The parameter \<open>fault\<close> stands
  for that: for a state and a directory it gives \<open>None\<close> when the removal goes through,
  and otherwise the nodes of the tree that are left when the removal raises. The
  result is the state the exception leaves (\<open>Inl\<close>) or the state after the removal.
\<close>

type_synonym rmtree_fault = "world \<Rightarrow> string \<Rightarrow> node fset option"

definition rmtree_raising :: "rmtree_fault \<Rightarrow> world \<Rightarrow> string \<Rightarrow> world + world" where
  "rmtree_raising fault w d =
     (case fault w d of
        None \<Rightarrow> Inr (rmtree w d)
      | Some left \<Rightarrow>
          Inl (w\<lparr>blobs := fmfilter (\<lambda>n. \<not> in_tree (node_of d) n \<or> n |\<in>| left) (blobs w),
                 dirs := ffilter (\<lambda>n. \<not> in_tree (node_of d) n \<or> n |\<in>| left) (dirs w)\<rparr>))"

text \<open>The entries of a directory: the nodes directly below it.\<close>

definition is_entry :: "string \<Rightarrow> node \<Rightarrow> bool" where
  "is_entry d n =
     (fst n = is_abs d \<and> snd n \<noteq> [] \<and> butlast (snd n) = resolve d \<and> last (snd n) \<noteq> ''..'')"

definition listdir :: "world \<Rightarrow> string \<Rightarrow> node fset" where
  "listdir w d = ffilter (is_entry d) (fmdom (blobs w) |\<union>| dirs w)"

text \<open>
  \<open>os.makedirs(path, exist_ok=True)\<close>: the directory exists afterwards, and so does
  every directory the path goes through, the one it starts from included. The cases
  in which \<open>os.makedirs\<close> raises, a regular file in the way and the empty path, are not
  modelled.
\<close>

fun visited :: "bool \<Rightarrow> string list \<Rightarrow> string list \<Rightarrow> string list list" where
  "visited ab stack [] = [stack]"
| "visited ab stack (c # cs) =
     stack #
     (if c = [] \<or> c = ''.'' then visited ab stack cs
      else if c = ''..'' then
        (if stack \<noteq> [] \<and> last stack \<noteq> ''..'' then visited ab (butlast stack) cs
         else if ab then visited ab stack cs
         else visited ab (stack @ [''..'']) cs)
      else visited ab (stack @ [c]) cs)"

definition makedirs :: "world \<Rightarrow> string \<Rightarrow> world" where
  "makedirs w path =
     w\<lparr>dirs := dirs w |\<union>|
                fset_of_list (map (Pair (is_abs path)) (visited (is_abs path) [] (components path)))\<rparr>"

section \<open>Helpers of utils.py\<close>

text \<open>
  The module \<open>utils\<close> is not among the sources. \<open>allowed_file\<close>, \<open>get_directory_size\<close>
  and \<open>format_file_size\<close> are parameters of the handlers that call them.
\<close>

record utils =
  allowed_file :: "string \<Rightarrow> bool"
  get_directory_size :: "world \<Rightarrow> string \<Rightarrow> int"
  format_file_size :: "int \<Rightarrow> string"

text \<open>
  Modelled from the spec: \<open>ensure_directory_exists\<close> of utils.py is missing. The spec:
  it creates the directory (and parents) if absent, idempotently, and returns the path.
\<close>

definition ensure_directory_exists :: "world \<Rightarrow> string \<Rightarrow> world \<times> string" where
  "ensure_directory_exists w path = (makedirs w path, path)"

text \<open>Python's \<open>str\<close> of a natural number.\<close>

definition digit_char :: "nat \<Rightarrow> char" where
  "digit_char n = ''0123456789'' ! n"

fun str_nat :: "nat \<Rightarrow> string" where
  "str_nat n = (if n < 10 then [digit_char n] else str_nat (n div 10) @ [digit_char (n mod 10)])"

declare str_nat.simps [simp del]

definition is_separator :: "char \<Rightarrow> bool" where
  "is_separator c = (c = CHR ''/'' \<or> c = CHR 0x5C)"

text \<open>The name before its extension, and the extension from its last dot on.\<close>

definition splitext :: "string \<Rightarrow> string \<times> string" where
  "splitext s =
     (let ext_rev = takeWhile (\<lambda>c. c \<noteq> CHR ''.'') (rev s);
          stem = take (length s - length ext_rev - 1) s
      in if CHR ''.'' \<in> set s \<and> stem \<noteq> [] then (stem, drop (length stem) s) else (s, []))"

text \<open>
  Modelled from the spec: \<open>safe_filename\<close> of utils.py is missing. The spec: it strips
  path separators and any \<open>..\<close> segments and collapses to a filesystem-safe basename;
  when the disambiguator is positive it appends a numeric suffix before the extension;
  it defends against null bytes. Here: the null bytes are dropped, the name is split
  at the separators, the empty and the \<open>..\<close> segments are dropped, and the last
  segment left is the basename.
\<close>

definition safe_base :: "string \<Rightarrow> string" where
  "safe_base original =
     (let segments = filter (\<lambda>s. s \<noteq> [] \<and> s \<noteq> ''..'')
                       (split_on is_separator (filter (\<lambda>c. c \<noteq> CHR 0x00) original))
      in if segments = [] then [] else last segments)"

definition safe_filename :: "string \<Rightarrow> nat \<Rightarrow> string" where
  "safe_filename original disambiguator =
     (let base = safe_base original
      in if disambiguator > 0 then
           (case splitext base of (stem, ext) \<Rightarrow> stem @ str_nat disambiguator @ ext)
         else base)"

text \<open>
  \<open>secrets.token_hex(nbytes)\<close>: the hexadecimal digits of \<open>nbytes\<close> random bytes. The
  bytes come from the entropy source, here a function from positions to bytes.
\<close>

definition hex_digit :: "nat \<Rightarrow> char" where
  "hex_digit n = ''0123456789abcdef'' ! n"

definition hex_byte :: "8 word \<Rightarrow> string" where
  "hex_byte b = [hex_digit (unat b div 16), hex_digit (unat b mod 16)]"

definition token_hex :: "nat \<Rightarrow> (nat \<Rightarrow> 8 word) \<Rightarrow> string" where
  "token_hex nbytes entropy = concat (map (\<lambda>i. hex_byte (entropy i)) [0..<nbytes])"

definition is_hex_token :: "nat \<Rightarrow> string \<Rightarrow> bool" where
  "is_hex_token bits s =
     (4 * length s = bits \<and> list_all (\<lambda>c. c \<in> set ''0123456789abcdef'') s)"

section \<open>Application start (app_production.py)\<close>

definition init_storage :: "app_config \<Rightarrow> world \<Rightarrow> world" where
  "init_storage cfg w =
     (let w1 = makedirs w (UPLOAD_FOLDER cfg);
          w2 = makedirs w1 (SHARED_FOLDER cfg)
      in w2\<lparr>store := init_db (store w2) (DATABASE_FILE cfg)\<rparr>)"

text \<open>
  \<open>create_app\<close>: the configuration is loaded and the storage initialised; the result is
  the exception of the configuration or the configured application with its state.
  Logging and the registration of the routes do not touch the state modelled here.
\<close>

definition create_app ::
  "(string \<Rightarrow> int option) \<Rightarrow> environ \<Rightarrow> string \<Rightarrow> world \<Rightarrow> config_exc + app_config \<times> world" where
  "create_app int_of env urandom_hex w =
     (case load_config int_of env urandom_hex of
        Inl e \<Rightarrow> Inl e
      | Inr cfg \<Rightarrow> Inr (cfg, init_storage cfg w))"

section \<open>Request handlers (routes.py)\<close>

text \<open>
  A handler runs for a logged-in user, whose name the session gives. It returns the new
  state, the messages it flashed (text and category) and its response: a redirect to an
  endpoint with its arguments, a rendered template, a file sent, or the failure of the
  request by an exception no handler catches, which leaves the state as it is when the
  exception is raised.
\<close>

type_synonym flash = "string \<times> string"

datatype response =
    Redirect string "(string \<times> string) list"
  | Render string
  | SendFile string string
  | ServerError

type_synonym reply = "world \<times> flash list \<times> response"

record upload =
  upload_name :: string
  upload_size :: int

record folder_form =
  form_folder_name :: "string option"
  form_shared_with :: "string list"

definition quoted :: "string \<Rightarrow> string" where
  "quoted s = [CHR 0x22] @ s @ [CHR 0x22]"

text \<open>The characters with codes below 256 that \<open>str.strip\<close> removes.\<close>

definition py_isspace :: "char \<Rightarrow> bool" where
  "py_isspace c =
     (c \<in> set [CHR 0x09, CHR 0x0A, CHR 0x0B, CHR 0x0C, CHR 0x0D,
                CHR 0x1C, CHR 0x1D, CHR 0x1E, CHR 0x1F, CHR 0x20, CHR 0x85, CHR 0xA0])"

definition strip :: "string \<Rightarrow> string" where
  "strip s = rev (dropWhile py_isspace (rev (dropWhile py_isspace s)))"


definition get_shared_folder_path :: "app_config \<Rightarrow> world \<Rightarrow> string \<Rightarrow> world \<times> string" where
  "get_shared_folder_path cfg w folder_id =
     ensure_directory_exists w (path_join (SHARED_FOLDER cfg) folder_id)"

text \<open>
  The loop of the upload handlers that avoids an existing name. It may run forever as
  far as its text goes, so its result is an option; it returns the name, the path and
  the counter it ends with. The counter starts at 1 and grows by one in each iteration.
\<close>

partial_function (option) handle_duplicates ::
  "world \<Rightarrow> string \<Rightarrow> string \<Rightarrow> string \<Rightarrow> string \<Rightarrow> nat \<Rightarrow> (string \<times> string \<times> nat) option" where
  "handle_duplicates w dir original filename filepath counter =
     (if path_exists w filepath then
        handle_duplicates w dir original (safe_filename original counter)
          (path_join dir (safe_filename original counter)) (counter + 1)
      else Some (filename, filepath, counter))"

text \<open>\<open>file.save(filepath)\<close>: the file is at the node of the path afterwards.\<close>

definition save_file :: "world \<Rightarrow> string \<Rightarrow> int \<Rightarrow> world" where
  "save_file w filepath file_size = w\<lparr>blobs := fmupd (node_of filepath) file_size (blobs w)\<rparr>"

definition no_file_selected :: "flash" where
  "no_file_selected = (''No file selected.'', ''error'')"


definition access_denied :: "flash list \<times> response" where
  "access_denied =
     ([(''You do not have access to this folder.'', ''error'')], Redirect ''shared_folders'' [])"

definition view_shared_folder :: "app_config \<Rightarrow> world \<Rightarrow> string \<Rightarrow> string \<Rightarrow> reply" where
  "view_shared_folder cfg w username folder_id =
     (case can_access_folder (store w) (DATABASE_FILE cfg) username folder_id of
        Inl e \<Rightarrow> (w, [], ServerError)
      | Inr (fs1, ok) \<Rightarrow>
          (let w1 = w\<lparr>store := fs1\<rparr>
           in if \<not> ok then (w1, access_denied)
              else
                (case get_shared_folder (store w1) (DATABASE_FILE cfg) folder_id of
                   Inl e \<Rightarrow> (w1, [], ServerError)
                 | Inr (fs2, folder_info) \<Rightarrow>
                     (let (w3, folder_path) =
                            get_shared_folder_path cfg (w1\<lparr>store := fs2\<rparr>) folder_id
                      in case folder_info of
                           None \<Rightarrow> (w3, [], ServerError)
                         | Some info \<Rightarrow> (w3, [], Render ''shared_folder.html'')))))"

definition upload_to_shared ::
  "utils \<Rightarrow> app_config \<Rightarrow> world \<Rightarrow> string \<Rightarrow> string \<Rightarrow> upload option \<Rightarrow> reply option" where
  "upload_to_shared ut cfg w username folder_id file_opt =
     (case can_access_folder (store w) (DATABASE_FILE cfg) username folder_id of
        Inl e \<Rightarrow> Some (w, [], ServerError)
      | Inr (fs1, ok) \<Rightarrow>
          (let w1 = w\<lparr>store := fs1\<rparr>;
               back = Redirect ''view_shared_folder'' [(''folder_id'', folder_id)]
           in if \<not> ok then Some (w1, access_denied)
              else
                (case file_opt of
                   None \<Rightarrow> Some (w1, [no_file_selected], back)
                 | Some file \<Rightarrow>
                     if upload_name file = [] then Some (w1, [no_file_selected], back)
                     else if \<not> allowed_file ut (upload_name file) then
                       Some (w1, [(''File type not allowed.'', ''error'')], back)
                     else
                       (let (w2, folder_path) = get_shared_folder_path cfg w1 folder_id
                        in case handle_duplicates w2 folder_path (upload_name file)
                                  (safe_filename (upload_name file) 0)
                                  (path_join folder_path (safe_filename (upload_name file) 0)) 1 of
                             None \<Rightarrow> None
                           | Some (filename, filepath, counter) \<Rightarrow>
                               Some (save_file w2 filepath (upload_size file),
                                     [(''File '' @ quoted filename @
                                         '' uploaded to shared folder! ('' @
                                         format_file_size ut (upload_size file) @ '')'',
                                       ''success'')],
                                     back)))))"

definition download_shared_file ::
  "app_config \<Rightarrow> world \<Rightarrow> string \<Rightarrow> string \<Rightarrow> string \<Rightarrow> reply" where
  "download_shared_file cfg w username folder_id filename =
     (case can_access_folder (store w) (DATABASE_FILE cfg) username folder_id of
        Inl e \<Rightarrow> (w, [], ServerError)
      | Inr (fs1, ok) \<Rightarrow>
          (let w1 = w\<lparr>store := fs1\<rparr>;
               back = Redirect ''view_shared_folder'' [(''folder_id'', folder_id)]
           in if \<not> ok then (w1, access_denied)
              else
                (let (w2, folder_path) = get_shared_folder_path cfg w1 folder_id;
                     filename' = basename filename
                 in if \<not> path_exists w2 (path_join folder_path filename') then
                      (w2, [(''File not found.'', ''error'')], back)
                    else if is_file w2 (path_join folder_path filename') then
                      (w2, [], SendFile folder_path filename')
                    else (w2, [(''Error downloading file.'', ''error'')], back))))"

definition delete_shared_file ::
  "app_config \<Rightarrow> world \<Rightarrow> string \<Rightarrow> string \<Rightarrow> string \<Rightarrow> reply" where
  "delete_shared_file cfg w username folder_id filename =
     (case can_access_folder (store w) (DATABASE_FILE cfg) username folder_id of
        Inl e \<Rightarrow> (w, [], ServerError)
      | Inr (fs1, ok) \<Rightarrow>
          (let w1 = w\<lparr>store := fs1\<rparr>;
               back = Redirect ''view_shared_folder'' [(''folder_id'', folder_id)]
           in if \<not> ok then (w1, access_denied)
              else
                (let (w2, folder_path) = get_shared_folder_path cfg w1 folder_id;
                     filename' = basename filename;
                     filepath = path_join folder_path filename'
                 in if \<not> path_exists w2 filepath then
                      (w2, [(''File not found.'', ''error'')], back)
                    else if is_file w2 filepath then
                      (w2\<lparr>blobs := fmdrop (node_of filepath) (blobs w2)\<rparr>,
                       [(''File '' @ quoted filename' @ '' deleted from shared folder.'',
                         ''success'')],
                       back)
                    else (w2, [], ServerError))))"

text \<open>
  The two steps of \<open>delete_folder\<close> once the owner is known to ask. The first gives the
  state an exception of \<open>shutil.rmtree\<close> leaves (\<open>Inl\<close>) or the state after the removal.
\<close>

definition delete_physical_folder ::
  "rmtree_fault \<Rightarrow> app_config \<Rightarrow> world \<Rightarrow> string \<Rightarrow> world + world" where
  "delete_physical_folder fault cfg w folder_id =
     (let (w1, folder_path) = get_shared_folder_path cfg w folder_id
      in if path_exists w1 folder_path then rmtree_raising fault w1 folder_path else Inr w1)"

definition delete_from_database :: "app_config \<Rightarrow> world \<Rightarrow> string \<Rightarrow> exc + world" where
  "delete_from_database cfg w folder_id =
     (case delete_shared_folder (store w) (DATABASE_FILE cfg) folder_id of
        Inl e \<Rightarrow> Inl e
      | Inr (fs1, deleted) \<Rightarrow> Inr (w\<lparr>store := fs1\<rparr>))"

definition delete_folder ::
  "rmtree_fault \<Rightarrow> app_config \<Rightarrow> world \<Rightarrow> string \<Rightarrow> string \<Rightarrow> reply" where
  "delete_folder fault cfg w username folder_id =
     (case get_shared_folder (store w) (DATABASE_FILE cfg) folder_id of
        Inl e \<Rightarrow> (w, [], ServerError)
      | Inr (fs1, folder_info) \<Rightarrow>
          (let w1 = w\<lparr>store := fs1\<rparr>
           in case folder_info of
                None \<Rightarrow> (w1, [(''Folder not found.'', ''error'')], Redirect ''shared_folders'' [])
              | Some info \<Rightarrow>
                  if owner info \<noteq> username then
                    (w1, [(''Only the folder owner can delete this folder.'', ''error'')],
                     Redirect ''shared_folders'' [])
                  else
                    (case delete_physical_folder fault cfg w1 folder_id of
                       Inl w_raised \<Rightarrow> (w_raised, [], ServerError)
                     | Inr w2 \<Rightarrow>
                         (case delete_from_database cfg w2 folder_id of
                            Inl e \<Rightarrow> (w2, [], ServerError)
                          | Inr w3 \<Rightarrow>
                              (w3, [(''Shared folder '' @ quoted (folder_name info) @
                                       '' deleted successfully.'', ''success'')],
                               Redirect ''shared_folders'' [])))))"

definition create_folder ::
  "app_config \<Rightarrow> world \<Rightarrow> string \<Rightarrow> folder_form \<Rightarrow> (nat \<Rightarrow> 8 word) \<Rightarrow> string \<Rightarrow> reply" where
  "create_folder cfg w username form entropy now =
     (let folder_name' = strip (case form_folder_name form of None \<Rightarrow> [] | Some s \<Rightarrow> s);
          shared_with_users = form_shared_with form
      in if folder_name' = [] then
           (w, [(''Please enter a folder name.'', ''error'')], Redirect ''shared_folders'' [])
         else if shared_with_users = [] then
           (w, [(''Please select at least one user to share with.'', ''error'')],
            Redirect ''shared_folders'' [])
         else
           (let folder_id = token_hex 8 entropy
            in case create_shared_folder (store w) (DATABASE_FILE cfg) folder_id
                      folder_name' username shared_with_users now of
                 Inl e \<Rightarrow> (w, [], ServerError)
               | Inr fs1 \<Rightarrow>
                   (let (w2, folder_path) = get_shared_folder_path cfg (w\<lparr>store := fs1\<rparr>) folder_id
                    in (w2, [(''Shared folder '' @ quoted folder_name' @
                                '' created successfully!'', ''success'')],
                        Redirect ''view_shared_folder'' [(''folder_id'', folder_id)]))))"

section \<open>Concrete inputs\<close>

definition example_user :: user where
  "example_user = \<lparr>email = ''a@example.org'', salt = ''s'', password = ''h'',
     created_at = ''2024-01-01T00:00:00'', last_active = ''2024-01-01T00:00:00'',
     storage_used = 0, storage_limit = 100\<rparr>"

definition example_users :: "string list \<Rightarrow> (string, user) fmap" where
  "example_users names = fmap_of_list (map (\<lambda>n. (n, example_user)) names)"

definition example_store :: "string list \<Rightarrow> store_fs" where
  "example_store names =
     fmupd ''users.json'' (Json \<lparr>users = example_users names, shared_folders = Some fmempty\<rparr>) fmempty"

definition int_of_5 :: "string \<Rightarrow> int option" where
  "int_of_5 s = (if s = ''5'' then Some 5 else None)"

definition env_max_users_5 :: environ where
  "env_max_users_5 = fmupd ''MAX_USERS'' ''5'' fmempty"

definition ten_users :: "string list" where
  "ten_users = [''u0'', ''u1'', ''u2'', ''u3'', ''u4'', ''u5'', ''u6'', ''u7'', ''u8'', ''u9'']"

definition env_production :: environ where
  "env_production = fmupd ''FLASK_ENV'' ''production'' fmempty"

definition example_config :: app_config where
  "example_config =
     \<lparr>SECRET_KEY = Some ''00'', UPLOAD_FOLDER = ''user_storage'',
      SHARED_FOLDER = ''shared_storage'', DATABASE_FILE = ''users.json'',
      SESSION_COOKIE_SECURE = False, PERMANENT_SESSION_LIFETIME_HOURS = 1, MAX_USERS = 10,
      STORAGE_LIMIT_PER_USER = 100, HOST = ''0.0.0.0'', PORT = 5000, DEBUG = True\<rparr>"

definition empty_world :: world where
  "empty_world = \<lparr>store = fmempty, blobs = fmempty, dirs = {|(False, [])|}\<rparr>"

definition example_form :: folder_form where
  "example_form = \<lparr>form_folder_name = Some ''Team'', form_shared_with = [''bob'']\<rparr>"

definition two_files_world :: world where
  "two_files_world =
     \<lparr>store = fmempty,
      blobs = fmupd (False, [''user_storage'', ''alice'', ''a.txt'']) 40
                (fmupd (False, [''user_storage'', ''alice'', ''a1.txt'']) 50 fmempty),
      dirs = {|(False, []), (False, [''user_storage'']),
               (False, [''user_storage'', ''alice''])|}\<rparr>"



definition example_folder :: shared_folder where
  "example_folder =
     \<lparr>folder_name = ''Team'', owner = ''alice'', shared_with = [''bob''],
      folder_created_at = ''2024-01-01T00:00:00''\<rparr>"

definition shared_world :: world where
  "shared_world =
     \<lparr>store = fmupd ''users.json''
        (Json \<lparr>users = example_users [''alice'', ''bob'', ''carol''],
               shared_folders = Some (fmupd ''f1'' example_folder fmempty)\<rparr>) fmempty,
      blobs = fmupd (False, [''shared_storage'', ''f1'', ''doc.txt'']) 12 fmempty,
      dirs = {|(False, []), (False, [''shared_storage'']),
               (False, [''shared_storage'', ''f1''])|}\<rparr>"

definition no_fault :: rmtree_fault where
  "no_fault w d = None"

definition locked_fault :: rmtree_fault where
  "locked_fault w d = Some (ffilter (in_tree (node_of d)) (fmdom (blobs w) |\<union>| dirs w))"


section \<open>Properties of the record store\<close>

lemma init_db_dom: "db |\<in>| fmdom (init_db fs db)"
  by (simp add: init_db_def)




lemma load_db_missing:
  "fmlookup fs db = None \<Longrightarrow>
   load_db fs db = Inr (fmupd db (Json empty_document) fs, empty_document)"
  by (simp add: load_db_def read_json_def init_db_def fmdom_notI)



lemma load_db_fst: "load_db fs db = Inr (fs1, d) \<Longrightarrow> fs1 = init_db fs db"
  by (auto simp: load_db_def read_json_def init_db_def fmlookup_dom_iff
      split: option.splits file_content.splits if_splits)

lemma load_db_init:
  "load_db fs db = Inr (fs1, d) \<Longrightarrow> load_db (init_db fs db) db = Inr (init_db fs db, d)"
  by (auto simp: load_db_def read_json_def init_db_def fmlookup_dom_iff empty_document_def
      split: option.splits file_content.splits if_splits)

lemma load_db_save: "load_db (save_db fs db d) db = Inr (save_db fs db d, d)"
  by (auto simp: load_db_def read_json_def save_db_def Let_def
      split: option.splits file_content.splits)

lemma load_db_Inr:
  "load_db fs db = Inr (fs1, d) \<Longrightarrow> load_db fs db = Inr (init_db fs db, d)"
  using load_db_fst by blast











lemma load_example_store:
  "load_db (example_store names) ''users.json'' =
     Inr (example_store names, \<lparr>users = example_users names, shared_folders = Some fmempty\<rparr>)"
  by (simp add: load_db_def read_json_def example_store_def)


lemma get_user_save:
  "get_user (save_db fs db d) db u = Inr (save_db fs db d, fmlookup (users d) u)"
  by (simp add: get_user_def load_db_save)

text \<open>
  C3 (amended). Where the store loads: \<open>create_user\<close> fails with "Username already
  exists" when the username is in the store; otherwise it fails with "Maximum number of
  users reached" when the store holds 10 users or more, the constant of the source;
  otherwise it succeeds, and the store then holds the new record with \<open>storage_used\<close> 0
  and the two clock readings as \<open>created_at\<close> and \<open>last_active\<close>, the other users and
  the folders unchanged.
\<close>

theorem create_user_outcomes:
  assumes "load_db fs db_file = Inr (fs1, d)"
    and "r = create_user fs db_file username e s h lim t_created t_active"
  shows "(username |\<in>| fmdom (users d) \<longrightarrow>
            r = Inr (init_db fs db_file, False, ''Username already exists'')) \<and>
         (username |\<notin>| fmdom (users d) \<and> 10 \<le> fcard (fmdom (users d)) \<longrightarrow>
            r = Inr (init_db fs db_file, False, ''Maximum number of users reached'')) \<and>
         (username |\<notin>| fmdom (users d) \<and> fcard (fmdom (users d)) < 10 \<longrightarrow>
            (\<exists>fs' d'.
               r = Inr (fs', True, ''User created successfully'') \<and>
               load_db fs' db_file = Inr (fs', d') \<and>
               get_user fs' db_file username =
                 Inr (fs', Some \<lparr>email = e, salt = s, password = h, created_at = t_created,
                                  last_active = t_active, storage_used = 0, storage_limit = lim\<rparr>) \<and>
               (\<forall>v. v \<noteq> username \<longrightarrow> get_user fs' db_file v = Inr (fs', fmlookup (users d) v)) \<and>
               fcard (fmdom (users d')) = fcard (fmdom (users d)) + 1 \<and>
               shared_folders d' = shared_folders d))"
proof -
  have f: "fs1 = init_db fs db_file" using assms(1) by (rule load_db_fst)
  let ?d' = "d\<lparr>users := fmupd username
      \<lparr>email = e, salt = s, password = h, created_at = t_created, last_active = t_active,
       storage_used = 0, storage_limit = lim\<rparr> (users d)\<rparr>"
  have new: "username |\<notin>| fmdom (users d) \<and> fcard (fmdom (users d)) < 10 \<Longrightarrow>
      \<exists>fs' d'.
        r = Inr (fs', True, ''User created successfully'') \<and>
        load_db fs' db_file = Inr (fs', d') \<and>
        get_user fs' db_file username =
          Inr (fs', Some \<lparr>email = e, salt = s, password = h, created_at = t_created,
                           last_active = t_active, storage_used = 0, storage_limit = lim\<rparr>) \<and>
        (\<forall>v. v \<noteq> username \<longrightarrow> get_user fs' db_file v = Inr (fs', fmlookup (users d) v)) \<and>
        fcard (fmdom (users d')) = fcard (fmdom (users d)) + 1 \<and>
        shared_folders d' = shared_folders d"
    apply (rule exI [of _ "save_db fs1 db_file ?d'"])
    apply (rule exI [of _ ?d'])
    apply (simp add: assms create_user_def get_user_save load_db_save fcard_finsert_if)
    done
  show ?thesis
    using new by (simp add: assms create_user_def f [symmetric])
qed

theorem create_user_outcomes_witness:
  "create_user (example_store [''alice'']) ''users.json'' ''alice'' ''e'' ''s'' ''h'' 5 ''t1'' ''t2'' =
     Inr (example_store [''alice''], False, ''Username already exists'') \<and>
   create_user (example_store ten_users) ''users.json'' ''bob'' ''e'' ''s'' ''h'' 5 ''t1'' ''t2'' =
     Inr (example_store ten_users, False, ''Maximum number of users reached'') \<and>
   (\<exists>fs'. create_user (example_store [''alice'']) ''users.json'' ''bob'' ''e'' ''s'' ''h'' 5 ''t1'' ''t2'' =
       Inr (fs', True, ''User created successfully'') \<and>
     get_user fs' ''users.json'' ''bob'' =
       Inr (fs', Some \<lparr>email = ''e'', salt = ''s'', password = ''h'', created_at = ''t1'',
                        last_active = ''t2'', storage_used = 0, storage_limit = 5\<rparr>))"
proof -
  have i: "init_db (example_store names) ''users.json'' = example_store names" for names
    by (simp add: init_db_def example_store_def)
  have a: "''alice'' |\<in>| fmdom (users \<lparr>users = example_users [''alice''], shared_folders = Some fmempty\<rparr>)"
    and b: "''bob'' |\<notin>| fmdom (users \<lparr>users = example_users [''alice''], shared_folders = Some fmempty\<rparr>) \<and>
        fcard (fmdom (users \<lparr>users = example_users [''alice''], shared_folders = Some fmempty\<rparr>)) < 10"
    and b10: "''bob'' |\<notin>| fmdom (users \<lparr>users = example_users ten_users, shared_folders = Some fmempty\<rparr>) \<and>
        10 \<le> fcard (fmdom (users \<lparr>users = example_users ten_users, shared_folders = Some fmempty\<rparr>))"
    by (simp_all add: example_users_def ten_users_def fcard_finsert_if fcard_fempty)
  note t1 = create_user_outcomes [where username = "''alice''" and e = "''e''" and s = "''s''"
      and h = "''h''" and lim = 5 and t_created = "''t1''" and t_active = "''t2''",
      OF load_example_store [of "[''alice'']"] refl, THEN conjunct1, rule_format, OF a]
  note t2 = create_user_outcomes [where username = "''bob''" and e = "''e''" and s = "''s''"
      and h = "''h''" and lim = 5 and t_created = "''t1''" and t_active = "''t2''",
      OF load_example_store [of ten_users] refl, THEN conjunct2, THEN conjunct1, rule_format, OF b10]
  note t3 = create_user_outcomes [where username = "''bob''" and e = "''e''" and s = "''s''"
      and h = "''h''" and lim = 5 and t_created = "''t1''" and t_active = "''t2''",
      OF load_example_store [of "[''alice'']"] refl, THEN conjunct2, THEN conjunct2, rule_format, OF b]
  from t3 obtain fs' where
    c1: "create_user (example_store [''alice'']) ''users.json'' ''bob'' ''e'' ''s'' ''h'' 5 ''t1'' ''t2'' =
       Inr (fs', True, ''User created successfully'')"
    and c2: "get_user fs' ''users.json'' ''bob'' =
       Inr (fs', Some \<lparr>email = ''e'', salt = ''s'', password = ''h'', created_at = ''t1'',
                        last_active = ''t2'', storage_used = 0, storage_limit = 5\<rparr>)"
    by blast
  show ?thesis
  proof (intro conjI exI)
    show "create_user (example_store [''alice'']) ''users.json'' ''alice'' ''e'' ''s'' ''h'' 5 ''t1'' ''t2'' =
        Inr (example_store [''alice''], False, ''Username already exists'')"
      using t1 by (simp only: i)
    show "create_user (example_store ten_users) ''users.json'' ''bob'' ''e'' ''s'' ''h'' 5 ''t1'' ''t2'' =
        Inr (example_store ten_users, False, ''Maximum number of users reached'')"
      using t2 by (simp only: i)
    show "create_user (example_store [''alice'']) ''users.json'' ''bob'' ''e'' ''s'' ''h'' 5 ''t1'' ''t2'' =
        Inr (fs', True, ''User created successfully'')" by (rule c1)
    show "get_user fs' ''users.json'' ''bob'' =
        Inr (fs', Some \<lparr>email = ''e'', salt = ''s'', password = ''h'', created_at = ''t1'',
                         last_active = ''t2'', storage_used = 0, storage_limit = 5\<rparr>)" by (rule c2)
  qed
qed

text \<open>
  With \<open>MAX_USERS=5\<close> in the environment and five users in the store, the configured
  maximum is reached, and \<open>create_user\<close> still creates the sixth user.
\<close>

theorem create_user_ignores_max_users:
  "load_config int_of_5 env_max_users_5 ''00'' \<noteq> Inl ValueError \<and>
   load_config int_of_5 env_max_users_5 ''00'' \<noteq> Inl OverflowError \<and>
   MAX_USERS (projr (load_config int_of_5 env_max_users_5 ''00'')) = 5 \<and>
   fcard (fmdom (example_users [''u0'', ''u1'', ''u2'', ''u3'', ''u4''])) = 5 \<and>
   load_db (example_store [''u0'', ''u1'', ''u2'', ''u3'', ''u4''])
      (DATABASE_FILE (projr (load_config int_of_5 env_max_users_5 ''00''))) =
     Inr (example_store [''u0'', ''u1'', ''u2'', ''u3'', ''u4''],
          \<lparr>users = example_users [''u0'', ''u1'', ''u2'', ''u3'', ''u4''],
           shared_folders = Some fmempty\<rparr>) \<and>
   map_sum id snd (create_user (example_store [''u0'', ''u1'', ''u2'', ''u3'', ''u4''])
      (DATABASE_FILE (projr (load_config int_of_5 env_max_users_5 ''00'')))
      ''frank'' ''f@example.org'' ''s'' ''h''
      (STORAGE_LIMIT_PER_USER (projr (load_config int_of_5 env_max_users_5 ''00''))) ''t1'' ''t2'') =
     Inr (True, ''User created successfully'')"
proof -
  have cfg: "load_config int_of_5 env_max_users_5 ''00'' =
      Inr \<lparr>SECRET_KEY = Some ''00'', UPLOAD_FOLDER = ''user_storage'',
           SHARED_FOLDER = ''shared_storage'', DATABASE_FILE = ''users.json'',
           SESSION_COOKIE_SECURE = False, PERMANENT_SESSION_LIFETIME_HOURS = 1, MAX_USERS = 5,
           STORAGE_LIMIT_PER_USER = 10737418240, HOST = ''0.0.0.0'', PORT = 5000,
           DEBUG = True\<rparr>"
    by (simp add: load_config_def Config_def env_int_def env_or_def env_get_def
        env_max_users_5_def int_of_5_def get_config_def config_dict_def class_attributes_def
        timedelta_hours_def)
  show ?thesis
    by (simp add: cfg load_example_store create_user_def example_users_def fcard_finsert_if
        fcard_fempty)
qed

section \<open>Properties of the configuration\<close>

text \<open>
  C9. With \<open>FLASK_ENV=production\<close> and no \<open>SECRET_KEY\<close> in the environment, the
  production configuration is selected, \<open>create_app\<close> returns a configured application
  and raises nothing, the signing key of that application is \<open>None\<close>, and the secure
  cookie flag is set.
\<close>

theorem production_without_secret_key:
  "get_config env_production = ProductionConfig \<and>
   fmlookup env_production ''SECRET_KEY'' = None \<and>
   (\<exists>cfg w'. create_app int_of env_production urandom_hex w = Inr (cfg, w') \<and>
      SECRET_KEY cfg = None \<and> SESSION_COOKIE_SECURE cfg = True \<and> DEBUG cfg = False)"
  by (simp add: create_app_def load_config_def Config_def env_int_def env_production_def
      get_config_def config_dict_def env_get_def class_attributes_def timedelta_hours_def)

section \<open>Properties of the folder id\<close>

lemma length_hex_byte: "length (hex_byte b) = 2"
  by (simp add: hex_byte_def)

lemma token_hex_Suc: "token_hex (Suc n) e = token_hex n e @ hex_byte (e n)"
  by (simp add: token_hex_def)

lemma length_token_hex: "length (token_hex n e) = 2 * n"
  by (induction n) (simp_all add: token_hex_Suc length_hex_byte, simp add: token_hex_def)

lemma hex_digit_in: "k < 16 \<Longrightarrow> hex_digit k \<in> set ''0123456789abcdef''"
  unfolding hex_digit_def by (rule nth_mem) simp

lemma hex_digit_inj: "i < 16 \<Longrightarrow> j < 16 \<Longrightarrow> hex_digit i = hex_digit j \<Longrightarrow> i = j"
  unfolding hex_digit_def
  by (subst (asm) nth_eq_iff_index_eq) simp_all

lemma unat_byte_div: "unat (b :: 8 word) div 16 < 16"
proof -
  have "unat b < 256" using unsigned_less [of b, where 'a = nat] by simp
  then show ?thesis by simp
qed

lemma hex_byte_in: "set (hex_byte b) \<subseteq> set ''0123456789abcdef''"
  using hex_digit_in [OF unat_byte_div, of b] hex_digit_in [of "unat b mod 16"]
  by (simp add: hex_byte_def)

lemma hex_byte_inj: "hex_byte a = hex_byte b \<Longrightarrow> a = b"
proof -
  assume "hex_byte a = hex_byte b"
  then have "hex_digit (unat a div 16) = hex_digit (unat b div 16)"
    and "hex_digit (unat a mod 16) = hex_digit (unat b mod 16)"
    by (simp_all add: hex_byte_def)
  then have "unat a div 16 = unat b div 16" and "unat a mod 16 = unat b mod 16"
    using hex_digit_inj [OF unat_byte_div unat_byte_div, of a b]
      hex_digit_inj [of "unat a mod 16" "unat b mod 16"]
    by simp_all
  then have "unat a = unat b" by (metis div_mult_mod_eq)
  then show "a = b" by (simp add: word_unat_eq_iff)
qed

lemma token_hex_in: "set (token_hex n e) \<subseteq> set ''0123456789abcdef''"
proof (induction n)
  case 0
  show ?case by (simp add: token_hex_def)
next
  case (Suc n)
  then show ?case using hex_byte_in [of "e n"] by (simp add: token_hex_Suc)
qed

lemma token_hex_inj: "token_hex n e1 = token_hex n e2 \<Longrightarrow> i < n \<Longrightarrow> e1 i = e2 i"
proof (induction n)
  case 0
  then show ?case by simp
next
  case (Suc n)
  from Suc.prems(1) have "token_hex n e1 = token_hex n e2 \<and> hex_byte (e1 n) = hex_byte (e2 n)"
    by (simp add: token_hex_Suc length_token_hex)
  then show ?case using Suc.IH Suc.prems(2) hex_byte_inj by (cases "i = n") auto
qed

lemma is_hex_token_token_hex: "is_hex_token (8 * n) (token_hex n e)"
  unfolding is_hex_token_def list_all_iff
proof (intro conjI ballI)
  show "4 * length (token_hex n e) = 8 * n" by (simp add: length_token_hex)
next
  fix c assume "c \<in> set (token_hex n e)"
  then show "c \<in> set ''0123456789abcdef''" by (rule subsetD [OF token_hex_in])
qed

lemma create_shared_folder_Inr:
  assumes "load_db fs db = Inr (fs1, d)"
  shows "\<exists>fs'. create_shared_folder fs db fid n ow sw now = Inr fs' \<and>
     get_shared_folder fs' db fid =
       Inr (fs', Some \<lparr>folder_name = n, owner = ow, shared_with = sw, folder_created_at = now\<rparr>)"
  using assms
  by (simp add: get_shared_folder_def create_shared_folder_def load_db_save Let_def folders_of_def)

lemma walk_Some: "walk w ab stack cs = Some st \<Longrightarrow> st = resolve_components ab stack cs"
  by (induction cs arbitrary: stack) (auto split: if_splits)

lemma resolve_in_visited: "resolve_components ab stack cs \<in> set (visited ab stack cs)"
  by (induction cs arbitrary: stack) auto

lemma walk_visited:
  "\<forall>st\<in>set (visited ab stack cs). (ab, st) |\<in>| dirs w \<Longrightarrow>
   walk w ab stack cs = Some (resolve_components ab stack cs)"
  by (induction cs arbitrary: stack) auto

lemma lookup_path_Some: "lookup_path w p = Some n \<Longrightarrow> n = node_of p"
  using walk_Some [of w "is_abs p" "[]" "components p"]
  by (auto simp: lookup_path_def node_of_def resolve_def components_def split: if_splits)

lemma lookup_path_makedirs: "p \<noteq> [] \<Longrightarrow> lookup_path (makedirs w p) p = Some (node_of p)"
proof -
  assume "p \<noteq> []"
  have "\<forall>st\<in>set (visited (is_abs p) [] (components p)). (is_abs p, st) |\<in>| dirs (makedirs w p)"
    by (auto simp: makedirs_def fset_of_list_elem)
  then have "walk (makedirs w p) (is_abs p) [] (components p) =
      Some (resolve_components (is_abs p) [] (components p))"
    by (rule walk_visited)
  with \<open>p \<noteq> []\<close> show ?thesis
    by (simp add: lookup_path_def node_of_def resolve_def components_def)
qed

lemma node_of_in_makedirs: "node_of p |\<in>| dirs (makedirs w p)"
  using resolve_in_visited [of "is_abs p" "[]" "components p"]
  by (auto simp: makedirs_def node_of_def resolve_def components_def fset_of_list_elem)

lemma is_dir_makedirs: "p \<noteq> [] \<Longrightarrow> is_dir (makedirs w p) p"
  by (simp add: is_dir_def lookup_path_makedirs node_of_in_makedirs)

lemma path_join_not_Nil: "b \<noteq> [] \<Longrightarrow> path_join a b \<noteq> []"
  by (simp add: path_join_def)

lemma is_dir_get_shared_folder_path:
  "fid \<noteq> [] \<Longrightarrow>
   is_dir (fst (get_shared_folder_path cfg w fid)) (path_join (SHARED_FOLDER cfg) fid)"
  by (simp add: get_shared_folder_path_def ensure_directory_exists_def is_dir_makedirs
      path_join_not_Nil)

lemma store_get_shared_folder_path:
  "store (fst (get_shared_folder_path cfg w fid)) = store w"
  by (simp add: get_shared_folder_path_def ensure_directory_exists_def makedirs_def)

text \<open>
  C6 (amended). Where the store loads, a folder created by \<open>create_folder\<close> is
  identified by the value of \<open>secrets.token_hex(8)\<close>: 16 hexadecimal digits, a 64-bit
  token, which the 8 bytes drawn from the entropy source determine and which determines
  them. The record is stored under that id and the directory of the folder exists
  afterwards.
\<close>

theorem create_folder_id:
  assumes "strip (case form_folder_name form of None \<Rightarrow> [] | Some s \<Rightarrow> s) \<noteq> []"
    and "form_shared_with form \<noteq> []"
    and "load_db (store w) (DATABASE_FILE cfg) = Inr (fs1, d)"
    and "r = create_folder cfg w username form entropy now"
    and "fid = token_hex 8 entropy"
  shows "snd (snd r) = Redirect ''view_shared_folder'' [(''folder_id'', fid)] \<and>
         is_hex_token 64 fid \<and> length fid = 16 \<and>
         get_shared_folder (store (fst r)) (DATABASE_FILE cfg) fid =
           Inr (store (fst r),
                Some \<lparr>folder_name = strip (case form_folder_name form of None \<Rightarrow> [] | Some s \<Rightarrow> s),
                      owner = username, shared_with = form_shared_with form,
                      folder_created_at = now\<rparr>) \<and>
         is_dir (fst r) (path_join (SHARED_FOLDER cfg) fid) \<and>
         (\<forall>entropy'. token_hex 8 entropy' = fid \<longleftrightarrow> (\<forall>i<8. entropy' i = entropy i))"
proof -
  let ?name = "strip (case form_folder_name form of None \<Rightarrow> [] | Some s \<Rightarrow> s)"
  obtain fs' where c: "create_shared_folder (store w) (DATABASE_FILE cfg) fid ?name username
        (form_shared_with form) now = Inr fs'"
    and g: "get_shared_folder fs' (DATABASE_FILE cfg) fid =
        Inr (fs', Some \<lparr>folder_name = ?name, owner = username,
                         shared_with = form_shared_with form, folder_created_at = now\<rparr>)"
    using create_shared_folder_Inr [OF assms(3)] by blast
  have r: "fst r = fst (get_shared_folder_path cfg (w\<lparr>store := fs'\<rparr>) fid)"
    and resp: "snd (snd r) = Redirect ''view_shared_folder'' [(''folder_id'', fid)]"
    using assms(1,2) c
    by (simp_all add: assms(4) assms(5) [symmetric] create_folder_def Let_def split: prod.splits)
  have st: "store (fst r) = fs'" by (simp add: r store_get_shared_folder_path)
  have tok: "is_hex_token 64 fid"
    using is_hex_token_token_hex [of 8 entropy] assms(5) by simp
  have len: "length fid = 16" by (simp add: assms(5) length_token_hex)
  have inj: "token_hex 8 entropy' = fid \<longleftrightarrow> (\<forall>i<8. entropy' i = entropy i)" for entropy'
  proof
    assume "token_hex 8 entropy' = fid"
    then show "\<forall>i<8. entropy' i = entropy i"
      using token_hex_inj [of 8 entropy' entropy] assms(5) by simp
  next
    assume "\<forall>i<8. entropy' i = entropy i"
    then have "map (\<lambda>i. hex_byte (entropy' i)) [0..<8] = map (\<lambda>i. hex_byte (entropy i)) [0..<8]"
      by (intro map_cong) simp_all
    then show "token_hex 8 entropy' = fid"
      by (simp only: assms(5) token_hex_def)
  qed
  have "fid \<noteq> []" using len by auto
  then have dir: "is_dir (fst r) (path_join (SHARED_FOLDER cfg) fid)"
    unfolding r by (rule is_dir_get_shared_folder_path)
  show ?thesis
    using resp tok len inj g dir by (simp add: st)
qed

lemma token_hex_zero: "token_hex 8 (\<lambda>i. 0) = ''0000000000000000''"
  by (simp add: token_hex_def hex_byte_def hex_digit_def upt_rec)

theorem create_folder_id_witness:
  "snd (snd (create_folder example_config empty_world ''alice'' example_form (\<lambda>i. 0) ''t'')) =
     Redirect ''view_shared_folder'' [(''folder_id'', ''0000000000000000'')] \<and>
   is_hex_token 64 ''0000000000000000'' \<and>
   get_shared_folder
      (store (fst (create_folder example_config empty_world ''alice'' example_form (\<lambda>i. 0) ''t'')))
      ''users.json'' ''0000000000000000'' =
     Inr (store (fst (create_folder example_config empty_world ''alice'' example_form (\<lambda>i. 0) ''t'')),
          Some \<lparr>folder_name = ''Team'', owner = ''alice'', shared_with = [''bob''],
                folder_created_at = ''t''\<rparr>)"
proof -
  have s: "strip (case form_folder_name example_form of None \<Rightarrow> [] | Some s \<Rightarrow> s) = ''Team''"
    by (simp add: example_form_def strip_def py_isspace_def)
  have n: "form_shared_with example_form = [''bob'']"
    by (simp add: example_form_def)
  have l: "load_db (store empty_world) (DATABASE_FILE example_config) =
      Inr (fmupd ''users.json'' (Json empty_document) fmempty, empty_document)"
    by (simp add: empty_world_def example_config_def load_db_missing)
  show ?thesis
    using create_folder_id [where form = example_form and cfg = example_config
        and w = empty_world and username = "''alice''" and entropy = "\<lambda>i. 0" and now = "''t''",
        OF _ _ l refl refl]
    by (simp add: token_hex_zero s n example_config_def)
qed

text \<open>
  The id \<open>create_folder\<close> gives with an entropy source of zero bytes has 16 digits:
  it is not a 128-bit token.
\<close>

theorem create_folder_id_not_128_bit:
  "snd (snd (create_folder example_config empty_world ''alice'' example_form (\<lambda>i. 0) ''t'')) =
     Redirect ''view_shared_folder'' [(''folder_id'', ''0000000000000000'')] \<and>
   \<not> is_hex_token 128 ''0000000000000000''"
proof -
  have l: "load_db (store empty_world) (DATABASE_FILE example_config) =
      Inr (fmupd ''users.json'' (Json empty_document) fmempty, empty_document)"
    by (simp add: empty_world_def example_config_def load_db_missing)
  show ?thesis
    by (simp add: create_folder_def example_form_def strip_def py_isspace_def token_hex_zero
        Let_def is_hex_token_def create_shared_folder_def l split: prod.splits)
qed

section \<open>Properties of \<open>safe_filename\<close>\<close>

lemma split_on_not_Nil: "split_on P xs \<noteq> []"
  by (induction xs) (auto split: list.splits)

lemma split_on_chars:
  "s \<in> set (split_on P xs) \<Longrightarrow> c \<in> set s \<Longrightarrow> \<not> P c \<and> c \<in> set xs"
proof (induction xs arbitrary: s)
  case Nil
  then show ?case by simp
next
  case (Cons a xs)
  show ?case
  proof (cases "P a")
    case True
    with Cons show ?thesis by (auto split: if_splits)
  next
    case False
    obtain x rest where sp: "split_on P xs = x # rest"
      using split_on_not_Nil [of P xs] by (cases "split_on P xs") auto
    from Cons.prems False sp have "s = a # x \<or> s \<in> set rest" by simp
    then show ?thesis
    proof
      assume "s = a # x"
      with Cons.prems(2) have "c = a \<or> c \<in> set x" by simp
      then show ?thesis using False Cons.IH [of x] sp by auto
    next
      assume "s \<in> set rest"
      then show ?thesis using Cons.IH [of s] Cons.prems(2) sp by auto
    qed
  qed
qed

lemma split_on_single: "\<forall>c\<in>set s. \<not> P c \<Longrightarrow> split_on P s = [s]"
  by (induction s) auto

lemma split_on_append:
  "P sep \<Longrightarrow> split_on P (xs @ sep # ys) = split_on P xs @ split_on P ys"
proof (induction xs)
  case Nil
  then show ?case by simp
next
  case (Cons a xs)
  obtain x rest where sp: "split_on P xs = x # rest"
    using split_on_not_Nil [of P xs] by (cases "split_on P xs") auto
  with Cons show ?case by simp
qed

lemma splitext_append: "splitext s = (stem, ext) \<Longrightarrow> stem @ ext = s"
  by (auto simp: splitext_def Let_def split: if_splits)

lemma digit_char_in: "k < 10 \<Longrightarrow> digit_char k \<in> set ''0123456789''"
  unfolding digit_char_def by (rule nth_mem) simp

lemma str_nat_chars: "set (str_nat n) \<subseteq> set ''0123456789''"
proof (induction n rule: str_nat.induct)
  case (1 n)
  show ?case
  proof (cases "n < 10")
    case True
    then show ?thesis using digit_char_in [of n] by (subst str_nat.simps) simp
  next
    case False
    then show ?thesis
      using 1 digit_char_in [of "n mod 10"] by (subst str_nat.simps) simp
  qed
qed

lemma str_nat_not_Nil: "str_nat n \<noteq> []"
  by (subst str_nat.simps) simp

lemma safe_base_chars: "c \<in> set (safe_base original) \<Longrightarrow> \<not> is_separator c \<and> c \<noteq> CHR 0x00"
proof -
  let ?segs = "filter (\<lambda>s. s \<noteq> [] \<and> s \<noteq> ''..'')
      (split_on is_separator (filter (\<lambda>c. c \<noteq> CHR 0x00) original))"
  assume c: "c \<in> set (safe_base original)"
  then have ne: "?segs \<noteq> []" by (auto simp: safe_base_def Let_def split: if_splits)
  then have "last ?segs \<in> set ?segs" by (rule last_in_set)
  then have "last ?segs \<in> set (split_on is_separator (filter (\<lambda>c. c \<noteq> CHR 0x00) original))"
    by simp
  moreover have "c \<in> set (last ?segs)" using c ne by (simp add: safe_base_def Let_def)
  ultimately have "\<not> is_separator c \<and> c \<in> set (filter (\<lambda>c. c \<noteq> CHR 0x00) original)"
    by (rule split_on_chars)
  then show ?thesis by simp
qed

lemma safe_base_not_dotdot: "safe_base original \<noteq> ''..''"
proof -
  let ?segs = "filter (\<lambda>s. s \<noteq> [] \<and> s \<noteq> ''..'')
      (split_on is_separator (filter (\<lambda>c. c \<noteq> CHR 0x00) original))"
  show ?thesis
  proof (cases "?segs = []")
    case True
    then show ?thesis by (simp add: safe_base_def Let_def)
  next
    case False
    then have "last ?segs \<in> set ?segs" by (rule last_in_set)
    then have "last ?segs \<noteq> ''..''" by simp
    with False show ?thesis by (simp add: safe_base_def Let_def)
  qed
qed

lemma safe_filename_zero: "safe_filename original 0 = safe_base original"
  by (simp add: safe_filename_def)

lemma safe_filename_pos:
  "0 < d \<Longrightarrow> safe_filename original d =
     fst (splitext (safe_base original)) @ str_nat d @ snd (splitext (safe_base original))"
  by (simp add: safe_filename_def Let_def split: prod.splits)

lemma splitext_set:
  "set (fst (splitext s)) \<union> set (snd (splitext s)) = set s"
  using splitext_append [of s "fst (splitext s)" "snd (splitext s)"]
  by (metis prod.collapse set_append)

lemma digit_not_special:
  "c \<in> set ''0123456789'' \<Longrightarrow> \<not> is_separator c \<and> c \<noteq> CHR 0x00 \<and> c \<noteq> CHR ''.''"
  by (auto simp: is_separator_def)

lemma safe_filename_chars:
  "c \<in> set (safe_filename original d) \<Longrightarrow> \<not> is_separator c \<and> c \<noteq> CHR 0x00"
proof (cases "0 < d")
  case False
  assume "c \<in> set (safe_filename original d)"
  with False show ?thesis using safe_base_chars [of c original] by (simp add: safe_filename_zero)
next
  case True
  assume "c \<in> set (safe_filename original d)"
  with True have "c \<in> set (fst (splitext (safe_base original))) \<union>
      set (snd (splitext (safe_base original))) \<or> c \<in> set (str_nat d)"
    by (auto simp: safe_filename_pos)
  then show ?thesis
    using safe_base_chars [of c original] digit_not_special [of c] str_nat_chars [of d]
    by (auto simp only: splitext_set)
qed

lemma safe_filename_not_dotdot: "safe_filename original d \<noteq> ''..''"
proof (cases "0 < d")
  case False
  then show ?thesis using safe_base_not_dotdot by (simp add: safe_filename_zero)
next
  case True
  obtain c where c: "c \<in> set (str_nat d)"
    using str_nat_not_Nil [of d] by (cases "str_nat d") auto
  then have "c \<noteq> CHR ''.''" using digit_not_special [of c] str_nat_chars [of d] by blast
  moreover have "c \<in> set (safe_filename original d)" using c True by (simp add: safe_filename_pos)
  ultimately show ?thesis by auto
qed

lemma resolve_components_append:
  "resolve_components ab st (xs @ ys) = resolve_components ab (resolve_components ab st xs) ys"
  by (induction xs arbitrary: st) auto

lemma resolve_components_name:
  "name \<noteq> ''..'' \<Longrightarrow>
   resolve_components ab st [name] = (if name = [] \<or> name = ''.'' then st else st @ [name])"
  by simp

lemma no_slash_split:
  "CHR ''/'' \<notin> set name \<Longrightarrow> split_on (\<lambda>c. c = CHR ''/'') name = [name]"
  by (rule split_on_single) auto

lemma split_dir_name:
  "CHR ''/'' \<notin> set name \<Longrightarrow>
   split_on (\<lambda>c. c = CHR ''/'') (d @ CHR ''/'' # name) = split_on (\<lambda>c. c = CHR ''/'') d @ [name]"
  by (simp add: split_on_append no_slash_split)

lemma path_join_cases:
  assumes "CHR ''/'' \<notin> set name"
  shows "is_abs (path_join dir name) = is_abs dir \<and>
     (\<exists>cs. (components dir = cs \<or> components dir = cs @ [[]]) \<and>
           components (path_join dir name) = cs @ [name])"
proof (cases "dir = []")
  case True
  have j: "path_join [] name = name"
    using assms by (cases name) (auto simp: path_join_def)
  have a: "\<not> is_abs name" using assms by (cases name) (auto simp: is_abs_def)
  have "components [] = [] @ [[]]" by (simp add: components_def)
  moreover have "components name = [] @ [name]"
    using assms by (simp add: components_def no_slash_split)
  ultimately show ?thesis unfolding True j using a by (simp add: is_abs_def)
next
  case False
  note ne = False
  show ?thesis
  proof (cases "last dir = CHR ''/''")
    case True
    obtain d where d: "dir = d @ ''/''"
      using ne True by (metis append_butlast_last_id)
    have j: "path_join dir name = d @ CHR ''/'' # name"
      using assms ne True d by (cases name) (auto simp: path_join_def)
    have "is_abs (d @ CHR ''/'' # name) = is_abs (d @ ''/'')"
      by (cases d) (simp_all add: is_abs_def)
    then have ab: "is_abs (path_join dir name) = is_abs dir"
      unfolding j by (simp add: d)
    have sd: "components dir = components d @ [[]]"
      unfolding d components_def using split_dir_name [of "[]" d] by simp
    have sj: "components (path_join dir name) = components d @ [name]"
      unfolding j components_def by (rule split_dir_name [OF assms])
    show ?thesis using ab sd sj by blast
  next
    case False
    have j: "path_join dir name = dir @ CHR ''/'' # name"
      using assms ne False by (cases name) (auto simp: path_join_def)
    have ab: "is_abs (path_join dir name) = is_abs dir"
      unfolding j using ne by (cases dir) (auto simp: is_abs_def)
    have sj: "components (path_join dir name) = components dir @ [name]"
      unfolding j components_def by (rule split_dir_name [OF assms])
    show ?thesis using ab sj by blast
  qed
qed

lemma is_abs_path_join:
  "CHR ''/'' \<notin> set name \<Longrightarrow> is_abs (path_join dir name) = is_abs dir"
  using path_join_cases by blast

lemma resolve_components_snoc_empty:
  "resolve_components ab st (cs @ [[]]) = resolve_components ab st cs"
  by (simp add: resolve_components_append)

lemma resolve_path_join:
  assumes "CHR ''/'' \<notin> set name" and "name \<noteq> ''..''"
  shows "resolve (path_join dir name) =
     (if name = [] \<or> name = ''.'' then resolve dir else resolve dir @ [name])"
proof -
  obtain cs where c: "components dir = cs \<or> components dir = cs @ [[]]"
    and j: "components (path_join dir name) = cs @ [name]"
    using path_join_cases [OF assms(1)] by blast
  have d: "resolve dir = resolve_components (is_abs dir) [] cs"
    using c by (auto simp: resolve_def components_def [symmetric] resolve_components_snoc_empty)
  show ?thesis
    using assms(2)
    by (simp add: resolve_def [of "path_join dir name"] components_def [symmetric] j
        is_abs_path_join [OF assms(1)] resolve_components_append d)
qed

lemma resolves_inside_component:
  assumes "CHR ''/'' \<notin> set name" and "name \<noteq> ''..''"
  shows "resolves_inside dir name"
  using assms(2)
  by (simp add: resolves_inside_def is_abs_path_join [OF assms(1)] resolve_path_join [OF assms])

lemma safe_filename_no_slash: "CHR ''/'' \<notin> set (safe_filename original d)"
  using safe_filename_chars [of "CHR ''/''" original d] by (auto simp: is_separator_def)

text \<open>
  C5. For every input string and every disambiguator, the name \<open>safe_filename\<close> returns
  resolves inside every target directory it is joined to: it holds no separator and no
  null byte, and it is not \<open>..\<close>.
\<close>

theorem safe_filename_stays_inside:
  "resolves_inside dir (safe_filename original disambiguator) \<and>
   list_all (\<lambda>c. \<not> is_separator c \<and> c \<noteq> CHR 0x00) (safe_filename original disambiguator) \<and>
   safe_filename original disambiguator \<noteq> ''..''"
proof (intro conjI)
  show "resolves_inside dir (safe_filename original disambiguator)"
    by (rule resolves_inside_component [OF safe_filename_no_slash safe_filename_not_dotdot])
  show "list_all (\<lambda>c. \<not> is_separator c \<and> c \<noteq> CHR 0x00) (safe_filename original disambiguator)"
    unfolding list_all_iff using safe_filename_chars by blast
  show "safe_filename original disambiguator \<noteq> ''..''"
    by (rule safe_filename_not_dotdot)
qed

theorem safe_filename_stays_inside_witness:
  "safe_filename ''../../etc/passwd'' 0 = ''passwd'' \<and>
   resolves_inside ''user_storage/alice'' ''passwd'' \<and>
   \<not> resolves_inside ''user_storage/alice'' ''../../etc/passwd'' \<and>
   safe_filename (''/abs/x'' @ [CHR 0x00] @ ''.txt'') 2 = ''x2.txt'' \<and>
   resolves_inside ''user_storage/alice'' ''x2.txt''"
proof -
  have a: "safe_filename ''../../etc/passwd'' 0 = ''passwd''"
    by (simp add: safe_filename_def safe_base_def is_separator_def)
  have b: "safe_filename (''/abs/x'' @ [CHR 0x00] @ ''.txt'') 2 = ''x2.txt''"
    by (simp add: safe_filename_def safe_base_def is_separator_def splitext_def str_nat.simps
        digit_char_def)
  have c: "\<not> resolves_inside ''user_storage/alice'' ''../../etc/passwd''"
    by (simp add: resolves_inside_def resolve_def is_abs_def path_join_def)
  show ?thesis
    using safe_filename_stays_inside [of "''user_storage/alice''" "''../../etc/passwd''" 0]
      safe_filename_stays_inside [of "''user_storage/alice''" "''/abs/x'' @ [CHR 0x00] @ ''.txt''" 2]
      c
    by (simp only: a b simp_thms)
qed

section \<open>Termination of the duplicate-avoidance loop\<close>

lemma digit_char_inj: "i < 10 \<Longrightarrow> j < 10 \<Longrightarrow> digit_char i = digit_char j \<Longrightarrow> i = j"
  unfolding digit_char_def
  by (subst (asm) nth_eq_iff_index_eq) simp_all

lemma str_nat_small: "n < 10 \<Longrightarrow> str_nat n = [digit_char n]"
  by (subst str_nat.simps) simp

lemma str_nat_large:
  "\<not> n < 10 \<Longrightarrow> str_nat n = str_nat (n div 10) @ [digit_char (n mod 10)]"
  by (subst str_nat.simps) simp

lemma str_nat_inj: "str_nat n = str_nat m \<Longrightarrow> n = m"
proof (induction n arbitrary: m rule: str_nat.induct)
  case (1 n)
  show ?case
  proof (cases "n < 10")
    case True
    show ?thesis
    proof (cases "m < 10")
      case True
      with \<open>n < 10\<close> "1.prems" show ?thesis
        using digit_char_inj [of n m] by (simp add: str_nat_small)
    next
      case False
      with \<open>n < 10\<close> "1.prems" show ?thesis
        using str_nat_not_Nil [of "m div 10"] by (simp add: str_nat_small str_nat_large)
    qed
  next
    case False
    note big = False
    show ?thesis
    proof (cases "m < 10")
      case True
      with big "1.prems" show ?thesis
        using str_nat_not_Nil [of "n div 10"] by (simp add: str_nat_small str_nat_large)
    next
      case False
      with big "1.prems" have "str_nat (n div 10) = str_nat (m div 10)"
        and "digit_char (n mod 10) = digit_char (m mod 10)"
        by (simp_all add: str_nat_large)
      then have "n div 10 = m div 10" and "n mod 10 = m mod 10"
        using "1.IH" [OF big] digit_char_inj [of "n mod 10" "m mod 10"] by simp_all
      then show ?thesis by (metis div_mult_mod_eq)
    qed
  qed
qed

lemma safe_filename_inj:
  "0 < d \<Longrightarrow> 0 < d' \<Longrightarrow> safe_filename original d = safe_filename original d' \<Longrightarrow> d = d'"
  using str_nat_inj [of d d'] by (simp add: safe_filename_pos)

lemma safe_filename_pos_not_Nil: "0 < d \<Longrightarrow> safe_filename original d \<noteq> []"
  using str_nat_not_Nil [of d] by (simp add: safe_filename_pos)

lemma path_join_name:
  "CHR ''/'' \<notin> set name \<Longrightarrow> path_join dir name = path_join dir [] @ name"
  by (cases name) (auto simp: path_join_def)

lemma safe_filename_pos_not_dot: "0 < d \<Longrightarrow> safe_filename original d \<noteq> ''.''"
proof -
  assume d: "0 < d"
  obtain c where c: "c \<in> set (str_nat d)"
    using str_nat_not_Nil [of d] by (cases "str_nat d") auto
  then have "c \<noteq> CHR ''.''" using digit_not_special [of c] str_nat_chars [of d] by blast
  moreover have "c \<in> set (safe_filename original d)" using c d by (simp add: safe_filename_pos)
  ultimately show ?thesis by auto
qed

lemma node_of_path_join:
  assumes "name \<noteq> []" and "CHR ''/'' \<notin> set name" and "name \<noteq> ''.''" and "name \<noteq> ''..''"
  shows "node_of (path_join dir name) = (is_abs dir, resolve dir @ [name])"
  using assms by (simp add: node_of_def is_abs_path_join resolve_path_join)

lemma node_of_candidate:
  "0 < k \<Longrightarrow>
   node_of (path_join dir (safe_filename original k)) =
     (is_abs dir, resolve dir @ [safe_filename original k])"
  by (rule node_of_path_join)
    (simp_all add: safe_filename_pos_not_Nil safe_filename_no_slash safe_filename_pos_not_dot
      safe_filename_not_dotdot)

lemma path_exists_node:
  "path_exists w p \<Longrightarrow> node_of p |\<in>| fmdom (blobs w) |\<union>| dirs w"
  by (auto simp: path_exists_def is_file_def is_dir_def split: option.splits
      dest: lookup_path_Some)

lemma path_exists_entry:
  assumes "path_exists w (path_join dir name)" and "name \<noteq> []" and "CHR ''/'' \<notin> set name"
    and "name \<noteq> ''.''" and "name \<noteq> ''..''"
  shows "node_of (path_join dir name) |\<in>| listdir w dir"
proof -
  have n: "node_of (path_join dir name) = (is_abs dir, resolve dir @ [name])"
    using assms(2-5) by (rule node_of_path_join)
  have "is_entry dir (is_abs dir, resolve dir @ [name])"
    using assms(5) by (simp add: is_entry_def)
  then show ?thesis
    using path_exists_node [OF assms(1)] by (simp add: listdir_def n)
qed

lemma ffilter_finsert_if:
  "ffilter P (finsert x A) = (if P x then finsert x (ffilter P A) else ffilter P A)"
  by auto

lemma ffilter_fempty: "ffilter P {||} = {||}"
  by auto

lemma handle_duplicates_free:
  "\<not> path_exists w filepath \<Longrightarrow>
   handle_duplicates w dir original filename filepath c = Some (filename, filepath, c)"
  by (subst handle_duplicates.simps) simp

lemma handle_duplicates_run:
  assumes "path_exists w filepath"
    and "\<forall>k<n. path_exists w (path_join dir (safe_filename original (c + k)))"
    and "\<not> path_exists w (path_join dir (safe_filename original (c + n)))"
  shows "handle_duplicates w dir original filename filepath c =
     Some (safe_filename original (c + n), path_join dir (safe_filename original (c + n)), c + n + 1)"
  using assms
proof (induction n arbitrary: c filename filepath)
  case 0
  then show ?case
    by (subst handle_duplicates.simps) (simp add: handle_duplicates_free)
next
  case (Suc n)
  have first: "path_exists w (path_join dir (safe_filename original c))"
    using Suc.prems(2) by (metis add.right_neutral zero_less_Suc)
  have rest: "\<forall>k<n. path_exists w (path_join dir (safe_filename original (Suc c + k)))"
    using Suc.prems(2) by (metis Suc_less_eq add_Suc_shift)
  have free: "\<not> path_exists w (path_join dir (safe_filename original (Suc c + n)))"
    using Suc.prems(3) by simp
  show ?case
    using Suc.IH [OF first rest free] Suc.prems(1)
    by (subst handle_duplicates.simps) simp
qed

lemma free_candidate:
  "\<exists>k. 1 \<le> k \<and> k \<le> fcard (listdir w dir) + 1
     \<and> \<not> path_exists w (path_join dir (safe_filename original k))"
proof (rule ccontr)
  let ?f = "\<lambda>k. node_of (path_join dir (safe_filename original k))"
  let ?K = "{1..fcard (listdir w dir) + 1}"
  assume "\<not> ?thesis"
  then have all: "\<And>k. k \<in> ?K \<Longrightarrow> path_exists w (path_join dir (safe_filename original k))"
    by auto
  have sub: "?f ` ?K \<subseteq> fset (listdir w dir)"
  proof
    fix p assume "p \<in> ?f ` ?K"
    then obtain k where k: "k \<in> ?K" and p: "p = ?f k" by auto
    then have "0 < k" by simp
    then show "p \<in> fset (listdir w dir)"
      using path_exists_entry [OF all [OF k] safe_filename_pos_not_Nil safe_filename_no_slash
          safe_filename_pos_not_dot safe_filename_not_dotdot] p
      by simp
  qed
  have inj: "inj_on ?f ?K"
  proof (rule inj_onI)
    fix a b assume a: "a \<in> ?K" and b: "b \<in> ?K" and eq: "?f a = ?f b"
    moreover have "0 < a" and "0 < b" using a b by simp_all
    ultimately have "safe_filename original a = safe_filename original b"
      by (simp add: node_of_candidate)
    then show "a = b" using \<open>0 < a\<close> \<open>0 < b\<close> safe_filename_inj [of a b original] by simp
  qed
  have "card ?K \<le> card (fset (listdir w dir))"
    using card_inj_on_le [OF inj sub] by simp
  then show False by (simp add: fcard.rep_eq)
qed

lemma handle_duplicates_returns:
  "\<exists>filename filepath counter.
     handle_duplicates w dir original (safe_filename original 0)
       (path_join dir (safe_filename original 0)) 1 = Some (filename, filepath, counter) \<and>
     \<not> path_exists w filepath \<and> filepath = path_join dir filename \<and>
     counter - 1 \<le> fcard (listdir w dir) + 1"
proof (cases "path_exists w (path_join dir (safe_filename original 0))")
  case False
  then show ?thesis by (simp add: handle_duplicates_free)
next
  case True
  let ?free = "\<lambda>k. 1 \<le> k \<and> \<not> path_exists w (path_join dir (safe_filename original k))"
  obtain k where k: "?free k" and kb: "k \<le> fcard (listdir w dir) + 1"
    using free_candidate [of w dir original] by blast
  define m where "m = (LEAST k. ?free k)"
  have m: "?free m" unfolding m_def using k by (rule LeastI)
  have mk: "m \<le> k" unfolding m_def using k by (rule Least_le)
  have below: "\<forall>j<m - 1. path_exists w (path_join dir (safe_filename original (1 + j)))"
  proof (intro allI impI)
    fix j assume "j < m - 1"
    then have "1 + j < m" by simp
    then have "\<not> ?free (1 + j)" unfolding m_def by (rule not_less_Least)
    then show "path_exists w (path_join dir (safe_filename original (1 + j)))" by simp
  qed
  have m1: "1 + (m - 1) = m" using m by simp
  have "handle_duplicates w dir original (safe_filename original 0)
       (path_join dir (safe_filename original 0)) 1 =
     Some (safe_filename original m, path_join dir (safe_filename original m), m + 1)"
    using handle_duplicates_run [OF True below, of "safe_filename original 0"] m m1 by simp
  then show ?thesis using m mk kb by simp
qed

text \<open>
  C8. The loop that avoids an existing name returns for every state of the directory:
  it ends with a path that does not exist, and the iterations it ran, its last counter
  less one, are at most the number of entries of the directory plus one.
\<close>

theorem handle_duplicates_terminates:
  "\<exists>filename filepath counter.
     handle_duplicates w dir original (safe_filename original 0)
       (path_join dir (safe_filename original 0)) 1 = Some (filename, filepath, counter) \<and>
     \<not> path_exists w filepath \<and> filepath = path_join dir filename \<and>
     counter - 1 \<le> fcard (listdir w dir) + 1"
  by (rule handle_duplicates_returns)

theorem handle_duplicates_terminates_witness:
  "handle_duplicates two_files_world ''user_storage/alice'' ''a.txt'' (safe_filename ''a.txt'' 0)
     (path_join ''user_storage/alice'' (safe_filename ''a.txt'' 0)) 1 =
     Some (''a2.txt'', ''user_storage/alice/a2.txt'', 3) \<and>
   fcard (listdir two_files_world ''user_storage/alice'') = 2"
proof -
  have n0: "safe_filename ''a.txt'' 0 = ''a.txt''"
    and n1: "safe_filename ''a.txt'' 1 = ''a1.txt''"
    and n2: "safe_filename ''a.txt'' 2 = ''a2.txt''"
    by (simp_all add: safe_filename_def safe_base_def is_separator_def splitext_def
        str_nat.simps digit_char_def)
  have e0: "path_exists two_files_world (path_join ''user_storage/alice'' ''a.txt'')"
    and e1: "path_exists two_files_world (path_join ''user_storage/alice'' ''a1.txt'')"
    and e2: "\<not> path_exists two_files_world (path_join ''user_storage/alice'' ''a2.txt'')"
    by (simp_all add: path_join_def path_exists_def is_file_def is_dir_def lookup_path_def
        components_def is_abs_def two_files_world_def)
  have below: "\<forall>k<1. path_exists two_files_world
      (path_join ''user_storage/alice'' (safe_filename ''a.txt'' (1 + k)))"
  proof (intro allI impI)
    fix k :: nat assume "k < 1"
    then have "safe_filename ''a.txt'' (1 + k) = ''a1.txt''" using n1 by simp
    then show "path_exists two_files_world
        (path_join ''user_storage/alice'' (safe_filename ''a.txt'' (1 + k)))"
      using e1 by simp
  qed
  have "safe_filename ''a.txt'' (1 + 1) = ''a2.txt''" by (simp only: one_add_one n2)
  then have free: "\<not> path_exists two_files_world
      (path_join ''user_storage/alice'' (safe_filename ''a.txt'' (1 + 1)))"
    and name: "safe_filename ''a.txt'' (1 + 1) = ''a2.txt''"
    using e2 by simp_all
  have p2: "path_join ''user_storage/alice'' ''a2.txt'' = ''user_storage/alice/a2.txt''"
    by (simp add: path_join_def)
  have run: "handle_duplicates two_files_world ''user_storage/alice'' ''a.txt'' ''a.txt''
      (path_join ''user_storage/alice'' ''a.txt'') 1 =
      Some (''a2.txt'', ''user_storage/alice/a2.txt'', 3)"
    using handle_duplicates_run [OF e0 below free, of "''a.txt''"]
    by (simp only: name p2) simp
  have card: "fcard (listdir two_files_world ''user_storage/alice'') = 2"
    by (simp add: listdir_def two_files_world_def is_entry_def resolve_def is_abs_def
        ffilter_finsert_if ffilter_fempty fcard_finsert_if fcard_fempty)
  show ?thesis
    using handle_duplicates_terminates [of two_files_world "''user_storage/alice''" "''a.txt''"]
      run card
    by (simp add: n0)
qed

section \<open>The storage quota\<close>






section \<open>Authorization for shared folders\<close>

lemma get_shared_folder_fst:
  "get_shared_folder fs db fid = Inr (fs1, x) \<Longrightarrow> fs1 = init_db fs db"
  by (auto simp: get_shared_folder_def split: sum.splits dest: load_db_fst)

lemma get_shared_folder_init:
  "get_shared_folder fs db fid = Inr (fs1, x) \<Longrightarrow>
   get_shared_folder (init_db fs db) db fid = Inr (init_db fs db, x)"
  by (auto simp: get_shared_folder_def split: sum.splits dest: load_db_init)

lemma can_access_folder_eq:
  "get_shared_folder fs db fid = Inr (fs1, x) \<Longrightarrow>
   can_access_folder fs db u fid =
     Inr (fs1, case x of None \<Rightarrow> False | Some f \<Rightarrow> owner f = u \<or> u \<in> set (shared_with f))"
  by (simp add: can_access_folder_def split: option.splits)

lemma guarded_handlers_denied:
  assumes "can_access_folder (store w) (DATABASE_FILE cfg) u fid = Inr (fs1, False)"
  shows "view_shared_folder cfg w u fid = (w\<lparr>store := fs1\<rparr>, access_denied)"
    and "upload_to_shared ut cfg w u fid file_opt = Some (w\<lparr>store := fs1\<rparr>, access_denied)"
    and "download_shared_file cfg w u fid name = (w\<lparr>store := fs1\<rparr>, access_denied)"
    and "delete_shared_file cfg w u fid name = (w\<lparr>store := fs1\<rparr>, access_denied)"
  by (simp_all add: view_shared_folder_def upload_to_shared_def download_shared_file_def
      delete_shared_file_def assms)

lemma delete_folder_missing:
  assumes "get_shared_folder (store w) (DATABASE_FILE cfg) fid = Inr (fs1, None)"
  shows "delete_folder fault cfg w u fid =
     (w\<lparr>store := fs1\<rparr>, [(''Folder not found.'', ''error'')], Redirect ''shared_folders'' [])"
  by (simp add: delete_folder_def assms)

lemma delete_folder_not_owner:
  assumes "get_shared_folder (store w) (DATABASE_FILE cfg) fid = Inr (fs1, Some f)"
    and "owner f \<noteq> u"
  shows "delete_folder fault cfg w u fid =
     (w\<lparr>store := fs1\<rparr>,
      [(''Only the folder owner can delete this folder.'', ''error'')],
      Redirect ''shared_folders'' [])"
  using assms(2) by (simp add: delete_folder_def assms(1))

text \<open>
  C2 (amended). In viewing a shared folder, uploading to it, downloading from it and
  deleting a file of it, a user who is neither the owner nor in the shared-with list of
  the folder gets the reply a request for a folder id absent from the store gets: the
  message "You do not have access to this folder." and a redirect to the folder list,
  with nothing changed but the store file \<open>load_db\<close> may initialise. \<open>delete_folder\<close>
  tells the two apart: "Only the folder owner can delete this folder." for the
  existing folder and "Folder not found." for the absent id.
\<close>

theorem unauthorized_same_as_missing:
  assumes "get_shared_folder (store w) (DATABASE_FILE cfg) fid = Inr (fs1, Some f)"
    and "owner f \<noteq> u" and "u \<notin> set (shared_with f)"
    and "get_shared_folder (store w) (DATABASE_FILE cfg) missing = Inr (fs2, None)"
    and "w1 = w\<lparr>store := init_db (store w) (DATABASE_FILE cfg)\<rparr>"
  shows "view_shared_folder cfg w u fid = (w1, access_denied) \<and>
         view_shared_folder cfg w u missing = (w1, access_denied) \<and>
         upload_to_shared ut cfg w u fid file_opt = Some (w1, access_denied) \<and>
         upload_to_shared ut cfg w u missing file_opt = Some (w1, access_denied) \<and>
         download_shared_file cfg w u fid name = (w1, access_denied) \<and>
         download_shared_file cfg w u missing name = (w1, access_denied) \<and>
         delete_shared_file cfg w u fid name = (w1, access_denied) \<and>
         delete_shared_file cfg w u missing name = (w1, access_denied) \<and>
         delete_folder fault cfg w u fid =
           (w1, [(''Only the folder owner can delete this folder.'', ''error'')],
            Redirect ''shared_folders'' []) \<and>
         delete_folder fault cfg w u missing =
           (w1, [(''Folder not found.'', ''error'')], Redirect ''shared_folders'' [])"
proof -
  have f1: "fs1 = init_db (store w) (DATABASE_FILE cfg)"
    using assms(1) by (rule get_shared_folder_fst)
  have f2: "fs2 = init_db (store w) (DATABASE_FILE cfg)"
    using assms(4) by (rule get_shared_folder_fst)
  have a: "can_access_folder (store w) (DATABASE_FILE cfg) u fid = Inr (fs1, False)"
    using assms(2,3) by (simp add: can_access_folder_eq [OF assms(1)])
  have b: "can_access_folder (store w) (DATABASE_FILE cfg) u missing = Inr (fs2, False)"
    by (simp add: can_access_folder_eq [OF assms(4)])
  show ?thesis
    unfolding assms(5) f1 [symmetric]
    using guarded_handlers_denied [OF a] guarded_handlers_denied [OF b]
      delete_folder_not_owner [OF assms(1,2)] delete_folder_missing [OF assms(4)]
    by (simp add: f2 f1)
qed

lemma shared_world_folders:
  "get_shared_folder (store shared_world) ''users.json'' ''f1'' =
     Inr (store shared_world, Some example_folder)"
  "get_shared_folder (store shared_world) ''users.json'' ''nope'' =
     Inr (store shared_world, None)"
  by (simp_all add: get_shared_folder_def load_db_def read_json_def shared_world_def
      folders_of_def)

lemma shared_world_init:
  "init_db (store shared_world) ''users.json'' = store shared_world"
  by (simp add: init_db_def shared_world_def)

theorem unauthorized_same_as_missing_witness:
  "view_shared_folder example_config shared_world ''carol'' ''f1'' =
     (shared_world, access_denied) \<and>
   view_shared_folder example_config shared_world ''carol'' ''nope'' =
     (shared_world, access_denied) \<and>
   download_shared_file example_config shared_world ''carol'' ''f1'' ''doc.txt'' =
     (shared_world, access_denied) \<and>
   download_shared_file example_config shared_world ''carol'' ''nope'' ''doc.txt'' =
     (shared_world, access_denied)"
proof -
  have db: "DATABASE_FILE example_config = ''users.json''" by (simp add: example_config_def)
  have o: "owner example_folder \<noteq> ''carol''" "''carol'' \<notin> set (shared_with example_folder)"
    by (simp_all add: example_folder_def)
  have sf1: "get_shared_folder (store shared_world) (DATABASE_FILE example_config) ''f1'' =
      Inr (store shared_world, Some example_folder)"
    and sf2: "get_shared_folder (store shared_world) (DATABASE_FILE example_config) ''nope'' =
      Inr (store shared_world, None)"
    by (simp_all add: db shared_world_folders)
  show ?thesis
    using unauthorized_same_as_missing [OF sf1 o sf2 refl, where name = "''doc.txt''"]
    by (simp add: db shared_world_init)
qed

text \<open>
  In a store where folder \<open>f1\<close> belongs to alice and is shared with bob, carol is
  neither. Her request to delete \<open>f1\<close> and her request to delete an id that is not in
  the store get different replies.
\<close>

theorem delete_folder_leaks_existence:
  "get_shared_folder (store shared_world) (DATABASE_FILE example_config) ''f1'' =
     Inr (store shared_world, Some example_folder) \<and>
   owner example_folder \<noteq> ''carol'' \<and> ''carol'' \<notin> set (shared_with example_folder) \<and>
   get_shared_folder (store shared_world) (DATABASE_FILE example_config) ''nope'' =
     Inr (store shared_world, None) \<and>
   snd (delete_folder no_fault example_config shared_world ''carol'' ''f1'') =
     ([(''Only the folder owner can delete this folder.'', ''error'')],
      Redirect ''shared_folders'' []) \<and>
   snd (delete_folder no_fault example_config shared_world ''carol'' ''nope'') =
     ([(''Folder not found.'', ''error'')], Redirect ''shared_folders'' []) \<and>
   snd (delete_folder no_fault example_config shared_world ''carol'' ''f1'') \<noteq>
     snd (delete_folder no_fault example_config shared_world ''carol'' ''nope'')"
proof -
  have db: "DATABASE_FILE example_config = ''users.json''" by (simp add: example_config_def)
  have o: "owner example_folder \<noteq> ''carol''" "''carol'' \<notin> set (shared_with example_folder)"
    by (simp_all add: example_folder_def)
  have n: "snd (delete_folder no_fault example_config shared_world ''carol'' ''f1'') =
      ([(''Only the folder owner can delete this folder.'', ''error'')],
       Redirect ''shared_folders'' [])"
    using delete_folder_not_owner [of shared_world example_config "''f1''" "store shared_world"
        example_folder "''carol''" no_fault] o
    by (simp add: db shared_world_folders)
  have m: "snd (delete_folder no_fault example_config shared_world ''carol'' ''nope'') =
      ([(''Folder not found.'', ''error'')], Redirect ''shared_folders'' [])"
    using delete_folder_missing [of shared_world example_config "''nope''" "store shared_world"
        no_fault "''carol''"]
    by (simp add: db shared_world_folders)
  show ?thesis using o by (simp add: n m db shared_world_folders)
qed

section \<open>Deleting a shared folder\<close>

lemma in_tree_self: "in_tree d d"
  by (simp add: in_tree_def)

lemma rmtree_gone:
  "in_tree (node_of d) n \<Longrightarrow> n |\<notin>| fmdom (blobs (rmtree w d)) \<and> n |\<notin>| dirs (rmtree w d)"
  by (simp add: rmtree_def)

lemma rmtree_not_exists: "\<not> path_exists (rmtree w d) d"
  using rmtree_gone [OF in_tree_self, of d w] path_exists_node [of "rmtree w d" d] by auto

lemma path_exists_makedirs: "p \<noteq> [] \<Longrightarrow> path_exists (makedirs w p) p"
  by (simp add: path_exists_def is_dir_makedirs)

text \<open>Every configuration the application loads has a root for the shared folders.\<close>

lemma load_config_shared_folder:
  assumes "load_config int_of env urandom_hex = Inr cfg"
  shows "SHARED_FOLDER cfg \<noteq> []"
proof -
  obtain base where b: "Config int_of env urandom_hex = Inr base"
    and c: "cfg = class_attributes (get_config env) env base"
    using assms by (auto simp: load_config_def split: sum.splits)
  have "SHARED_FOLDER base = env_or env ''SHARED_FOLDER'' ''shared_storage''"
    using b by (auto simp: Config_def split: sum.splits)
  moreover have "env_or env ''SHARED_FOLDER'' ''shared_storage'' \<noteq> []"
    by (simp add: env_or_def split: option.splits)
  moreover have "SHARED_FOLDER cfg = SHARED_FOLDER base"
    by (simp add: c class_attributes_def split: config_class.splits)
  ultimately show ?thesis by simp
qed

lemma path_join_not_Nil_either: "a \<noteq> [] \<or> b \<noteq> [] \<Longrightarrow> path_join a b \<noteq> []"
  by (auto simp: path_join_def)

lemma delete_physical_folder_eq:
  "SHARED_FOLDER cfg \<noteq> [] \<or> fid \<noteq> [] \<Longrightarrow>
   delete_physical_folder fault cfg w fid =
     rmtree_raising fault (makedirs w (path_join (SHARED_FOLDER cfg) fid))
       (path_join (SHARED_FOLDER cfg) fid)"
  by (simp add: delete_physical_folder_def get_shared_folder_path_def
      ensure_directory_exists_def path_exists_makedirs path_join_not_Nil_either)

lemma store_makedirs: "store (makedirs w p) = store w"
  by (simp add: makedirs_def)

lemma store_rmtree: "store (rmtree w p) = store w"
  by (simp add: rmtree_def)

lemma path_exists_store: "path_exists (w\<lparr>store := fs\<rparr>) p = path_exists w p"
proof -
  have "walk (w\<lparr>store := fs\<rparr>) ab st cs = walk w ab st cs" for ab st cs
    by (induction cs arbitrary: st) auto
  then show ?thesis
    by (simp add: path_exists_def is_file_def is_dir_def lookup_path_def
        split: option.splits)
qed

lemma delete_shared_folder_Inr:
  assumes "load_db fs db = Inr (fs1, d)"
  shows "\<exists>fs' deleted. delete_shared_folder fs db fid = Inr (fs', deleted) \<and>
     get_shared_folder fs' db fid = Inr (fs', None)"
proof (cases "fid |\<in>| fmdom (folders_of d)")
  case True
  let ?d = "d\<lparr>shared_folders := Some (fmdrop fid (folders_of d))\<rparr>"
  have "delete_shared_folder fs db fid = Inr (save_db fs1 db ?d, True)"
    using True assms by (simp add: delete_shared_folder_def)
  moreover have "get_shared_folder (save_db fs1 db ?d) db fid = Inr (save_db fs1 db ?d, None)"
    by (simp add: get_shared_folder_def load_db_save folders_of_def)
  ultimately show ?thesis by blast
next
  case False
  then have "fmlookup (folders_of d) fid = None" by (simp add: fmdom_notD)
  then show ?thesis
    using False assms load_db_init [OF assms] load_db_fst [OF assms]
    by (auto simp: delete_shared_folder_def get_shared_folder_def)
qed

lemma get_shared_folder_load:
  "get_shared_folder fs db fid = Inr (fs1, x) \<Longrightarrow> \<exists>d. load_db fs db = Inr (fs1, d)"
  by (auto simp: get_shared_folder_def split: sum.splits)

text \<open>
  C4. The owner asks to delete a shared folder; the configured root of the shared
  folders and the folder id are not both empty (\<open>Config\<close> never gives an empty root, and
  the route never an empty id). \<open>delete_folder\<close> removes the directory tree first. Where
  \<open>shutil.rmtree\<close> raises, the request fails there and the record has not been removed:
  it is still in the store, and the users it authorises still have access. Where the
  removal goes through, the state after it has no directory and still has the record,
  and \<open>delete_folder\<close> then removes the record: afterwards no file and no directory of
  the tree exists, the store has no record under the id, and for every user
  \<open>can_access_folder\<close> is false and the four handlers of the folder deny access.
\<close>

theorem delete_folder_removes_both:
  assumes "get_shared_folder (store w) (DATABASE_FILE cfg) fid = Inr (fs1, Some f)"
    and "owner f = u" and "SHARED_FOLDER cfg \<noteq> [] \<or> fid \<noteq> []"
    and "folder_path = path_join (SHARED_FOLDER cfg) fid"
    and "w1 = makedirs (w\<lparr>store := fs1\<rparr>) folder_path"
    and "mid = rmtree w1 folder_path"
    and "r = delete_folder fault cfg w u fid"
  shows "(\<forall>left. fault w1 folder_path = Some left \<longrightarrow>
            snd r = ([], ServerError) \<and>
            get_shared_folder (store (fst r)) (DATABASE_FILE cfg) fid =
              Inr (store (fst r), Some f) \<and>
            (\<forall>v. can_access_folder (store (fst r)) (DATABASE_FILE cfg) v fid =
               Inr (store (fst r), owner f = v \<or> v \<in> set (shared_with f)))) \<and>
         (fault w1 folder_path = None \<longrightarrow>
            snd r =
              ([(''Shared folder '' @ quoted (folder_name f) @ '' deleted successfully.'',
                 ''success'')], Redirect ''shared_folders'' []) \<and>
            delete_physical_folder fault cfg (w\<lparr>store := fs1\<rparr>) fid = Inr mid \<and>
            \<not> path_exists mid folder_path \<and>
            get_shared_folder (store mid) (DATABASE_FILE cfg) fid = Inr (store mid, Some f) \<and>
            delete_from_database cfg mid fid = Inr (fst r) \<and>
            \<not> path_exists (fst r) folder_path \<and>
            (\<forall>n. in_tree (node_of folder_path) n \<longrightarrow>
               n |\<notin>| fmdom (blobs (fst r)) \<and> n |\<notin>| dirs (fst r)) \<and>
            get_shared_folder (store (fst r)) (DATABASE_FILE cfg) fid =
              Inr (store (fst r), None) \<and>
            (\<forall>v. can_access_folder (store (fst r)) (DATABASE_FILE cfg) v fid =
                 Inr (store (fst r), False) \<and>
               snd (view_shared_folder cfg (fst r) v fid) = access_denied \<and>
               (\<forall>ut file_opt. map_option snd (upload_to_shared ut cfg (fst r) v fid file_opt) =
                  Some access_denied) \<and>
               (\<forall>name. snd (download_shared_file cfg (fst r) v fid name) = access_denied \<and>
                  snd (delete_shared_file cfg (fst r) v fid name) = access_denied)))"
proof (intro conjI allI impI)
  have f1: "fs1 = init_db (store w) (DATABASE_FILE cfg)"
    using assms(1) by (rule get_shared_folder_fst)
  have g1: "get_shared_folder fs1 (DATABASE_FILE cfg) fid = Inr (fs1, Some f)"
    using get_shared_folder_init [OF assms(1)] by (simp add: f1)
  have phys: "delete_physical_folder fault cfg (w\<lparr>store := fs1\<rparr>) fid =
      rmtree_raising fault w1 folder_path"
    using delete_physical_folder_eq [OF assms(3)] by (simp add: assms(4,5))
  have st1: "store w1 = fs1" by (simp add: assms(5) store_makedirs)
  {
    fix left assume fl: "fault w1 folder_path = Some left"
    define wr where "wr = w1\<lparr>blobs := fmfilter (\<lambda>n. \<not> in_tree (node_of folder_path) n \<or> n |\<in>| left)
          (blobs w1),
        dirs := ffilter (\<lambda>n. \<not> in_tree (node_of folder_path) n \<or> n |\<in>| left) (dirs w1)\<rparr>"
    have "delete_physical_folder fault cfg (w\<lparr>store := fs1\<rparr>) fid = Inl wr"
      by (simp add: phys rmtree_raising_def fl wr_def)
    then have r: "r = (wr, [], ServerError)"
      using assms(2) by (simp add: assms(7) delete_folder_def assms(1))
    have sr: "store (fst r) = fs1" by (simp add: r wr_def st1)
    show "snd r = ([], ServerError)" by (simp add: r)
    show "get_shared_folder (store (fst r)) (DATABASE_FILE cfg) fid =
        Inr (store (fst r), Some f)"
      by (simp add: sr g1)
    fix v
    show "can_access_folder (store (fst r)) (DATABASE_FILE cfg) v fid =
        Inr (store (fst r), owner f = v \<or> v \<in> set (shared_with f))"
      by (simp add: sr can_access_folder_eq [OF g1])
  }
  assume ok: "fault w1 folder_path = None"
  have p: "delete_physical_folder fault cfg (w\<lparr>store := fs1\<rparr>) fid = Inr mid"
    by (simp add: phys rmtree_raising_def ok assms(6))
  show "delete_physical_folder fault cfg (w\<lparr>store := fs1\<rparr>) fid = Inr mid" by (rule p)
  have sm: "store mid = fs1" by (simp add: assms(6) store_rmtree st1)
  show m1: "\<not> path_exists mid folder_path" unfolding assms(6) by (rule rmtree_not_exists)
  show m2: "get_shared_folder (store mid) (DATABASE_FILE cfg) fid = Inr (store mid, Some f)"
    by (simp add: sm g1)
  obtain d where l: "load_db fs1 (DATABASE_FILE cfg) = Inr (fs1, d)"
    using get_shared_folder_load [OF g1] by blast
  obtain fs' deleted where
    del: "delete_shared_folder fs1 (DATABASE_FILE cfg) fid = Inr (fs', deleted)"
    and gone: "get_shared_folder fs' (DATABASE_FILE cfg) fid = Inr (fs', None)"
    using delete_shared_folder_Inr [OF l] by blast
  have db: "delete_from_database cfg mid fid = Inr (mid\<lparr>store := fs'\<rparr>)"
    by (simp add: delete_from_database_def sm del)
  have r: "r = (mid\<lparr>store := fs'\<rparr>,
      [(''Shared folder '' @ quoted (folder_name f) @ '' deleted successfully.'', ''success'')],
      Redirect ''shared_folders'' [])"
    using assms(2) by (simp add: assms(7) delete_folder_def assms(1) p db)
  show "snd r =
      ([(''Shared folder '' @ quoted (folder_name f) @ '' deleted successfully.'', ''success'')],
       Redirect ''shared_folders'' [])"
    by (simp add: r)
  show "delete_from_database cfg mid fid = Inr (fst r)" by (simp add: r db)
  show "\<not> path_exists (fst r) folder_path" using m1 by (simp add: r path_exists_store)
  have sr: "store (fst r) = fs'" by (simp add: r)
  show g: "get_shared_folder (store (fst r)) (DATABASE_FILE cfg) fid = Inr (store (fst r), None)"
    by (simp add: sr gone)
  {
    fix n assume "in_tree (node_of folder_path) n"
    then show "n |\<notin>| fmdom (blobs (fst r))" and "n |\<notin>| dirs (fst r)"
      using rmtree_gone [of folder_path n w1] by (simp_all add: r assms(6))
  }
  fix v
  show c: "can_access_folder (store (fst r)) (DATABASE_FILE cfg) v fid =
      Inr (store (fst r), False)"
    by (simp add: can_access_folder_eq [OF g])
  show "snd (view_shared_folder cfg (fst r) v fid) = access_denied"
    by (simp add: guarded_handlers_denied [OF c])
  fix ut file_opt
  show "map_option snd (upload_to_shared ut cfg (fst r) v fid file_opt) = Some access_denied"
    by (simp add: guarded_handlers_denied [OF c])
next
  fix v name
  assume ok: "fault w1 folder_path = None"
  have f1: "fs1 = init_db (store w) (DATABASE_FILE cfg)"
    using assms(1) by (rule get_shared_folder_fst)
  have g1: "get_shared_folder fs1 (DATABASE_FILE cfg) fid = Inr (fs1, Some f)"
    using get_shared_folder_init [OF assms(1)] by (simp add: f1)
  have phys: "delete_physical_folder fault cfg (w\<lparr>store := fs1\<rparr>) fid =
      rmtree_raising fault w1 folder_path"
    using delete_physical_folder_eq [OF assms(3)] by (simp add: assms(4,5))
  have p: "delete_physical_folder fault cfg (w\<lparr>store := fs1\<rparr>) fid = Inr mid"
    by (simp add: phys rmtree_raising_def ok assms(6))
  have sm: "store mid = fs1" by (simp add: assms(6) store_rmtree assms(5) store_makedirs)
  obtain d where l: "load_db fs1 (DATABASE_FILE cfg) = Inr (fs1, d)"
    using get_shared_folder_load [OF g1] by blast
  obtain fs' deleted where
    del: "delete_shared_folder fs1 (DATABASE_FILE cfg) fid = Inr (fs', deleted)"
    and gone: "get_shared_folder fs' (DATABASE_FILE cfg) fid = Inr (fs', None)"
    using delete_shared_folder_Inr [OF l] by blast
  have db: "delete_from_database cfg mid fid = Inr (mid\<lparr>store := fs'\<rparr>)"
    by (simp add: delete_from_database_def sm del)
  have r: "r = (mid\<lparr>store := fs'\<rparr>,
      [(''Shared folder '' @ quoted (folder_name f) @ '' deleted successfully.'', ''success'')],
      Redirect ''shared_folders'' [])"
    using assms(2) by (simp add: assms(7) delete_folder_def assms(1) p db)
  have g: "get_shared_folder (store (fst r)) (DATABASE_FILE cfg) fid = Inr (store (fst r), None)"
    by (simp add: r gone)
  have c: "can_access_folder (store (fst r)) (DATABASE_FILE cfg) v fid =
      Inr (store (fst r), False)"
    by (simp add: can_access_folder_eq [OF g])
  show "snd (download_shared_file cfg (fst r) v fid name) = access_denied"
    by (simp add: guarded_handlers_denied [OF c])
  show "snd (delete_shared_file cfg (fst r) v fid name) = access_denied"
    by (simp add: guarded_handlers_denied [OF c])
qed


lemma node_of_shared_f1:
  "node_of (path_join ''shared_storage'' ''f1'') = (False, [''shared_storage'', ''f1''])"
  by (simp add: node_of_def path_join_def is_abs_def resolve_def)

theorem delete_folder_removes_both_witness:
  "can_access_folder (store shared_world) ''users.json'' ''bob'' ''f1'' =
     Inr (store shared_world, True) \<and>
   path_exists shared_world ''shared_storage/f1'' \<and>
   snd (delete_folder no_fault example_config shared_world ''alice'' ''f1'') =
     ([(''Shared folder '' @ quoted ''Team'' @ '' deleted successfully.'', ''success'')],
      Redirect ''shared_folders'' []) \<and>
   \<not> path_exists (fst (delete_folder no_fault example_config shared_world ''alice'' ''f1''))
     ''shared_storage/f1'' \<and>
   (False, [''shared_storage'', ''f1'', ''doc.txt'']) |\<notin>|
     fmdom (blobs (fst (delete_folder no_fault example_config shared_world ''alice'' ''f1''))) \<and>
   snd (view_shared_folder example_config
     (fst (delete_folder no_fault example_config shared_world ''alice'' ''f1'')) ''bob'' ''f1'') =
     access_denied \<and>
   snd (delete_folder locked_fault example_config shared_world ''alice'' ''f1'') =
     ([], ServerError) \<and>
   can_access_folder
     (store (fst (delete_folder locked_fault example_config shared_world ''alice'' ''f1'')))
     ''users.json'' ''bob'' ''f1'' =
     Inr (store (fst (delete_folder locked_fault example_config shared_world ''alice'' ''f1'')),
          True)"
proof -
  have db: "DATABASE_FILE example_config = ''users.json''"
    and sf: "SHARED_FOLDER example_config = ''shared_storage''"
    by (simp_all add: example_config_def)
  have o: "owner example_folder = ''alice''" and fn: "folder_name example_folder = ''Team''"
    and sw: "owner example_folder = ''bob'' \<or> ''bob'' \<in> set (shared_with example_folder)"
    by (simp_all add: example_folder_def)
  have nf: "SHARED_FOLDER example_config \<noteq> [] \<or> ''f1'' \<noteq> []" by simp
  have sf1: "get_shared_folder (store shared_world) (DATABASE_FILE example_config) ''f1'' =
      Inr (store shared_world, Some example_folder)"
    by (simp add: db shared_world_folders)
  have before: "can_access_folder (store shared_world) ''users.json'' ''bob'' ''f1'' =
      Inr (store shared_world, True)"
    using sw by (simp add: can_access_folder_eq [OF shared_world_folders(1)])
  have pj: "path_join ''shared_storage'' ''f1'' = ''shared_storage/f1''"
    by (simp add: path_join_def)
  have ex: "path_exists shared_world ''shared_storage/f1''"
    by (simp add: path_exists_def is_dir_def is_file_def lookup_path_def is_abs_def
        components_def shared_world_def)
  have it: "in_tree (node_of (path_join ''shared_storage'' ''f1''))
      (False, [''shared_storage'', ''f1'', ''doc.txt''])"
    by (simp add: node_of_shared_f1 in_tree_def)
  note t = delete_folder_removes_both [where fault = no_fault, OF sf1 o nf refl refl refl refl,
      THEN conjunct2, rule_format, OF no_fault_def, unfolded db sf fn]
  note l = delete_folder_removes_both [where fault = locked_fault, OF sf1 o nf refl refl refl refl,
      THEN conjunct1, rule_format, OF locked_fault_def, unfolded db sf]
  from t have msg: "snd (delete_folder no_fault example_config shared_world ''alice'' ''f1'') =
      ([(''Shared folder '' @ quoted ''Team'' @ '' deleted successfully.'', ''success'')],
       Redirect ''shared_folders'' [])"
    by (rule conjunct1)
  from t have np: "\<not> path_exists
      (fst (delete_folder no_fault example_config shared_world ''alice'' ''f1''))
      (path_join ''shared_storage'' ''f1'')"
    by blast
  from t it have gone: "(False, [''shared_storage'', ''f1'', ''doc.txt'']) |\<notin>|
      fmdom (blobs (fst (delete_folder no_fault example_config shared_world ''alice'' ''f1'')))"
    by blast
  from t have view: "snd (view_shared_folder example_config
      (fst (delete_folder no_fault example_config shared_world ''alice'' ''f1'')) ''bob'' ''f1'') =
      access_denied"
    by blast
  from l have err: "snd (delete_folder locked_fault example_config shared_world ''alice'' ''f1'') =
      ([], ServerError)"
    by (rule conjunct1)
  from l have "can_access_folder
      (store (fst (delete_folder locked_fault example_config shared_world ''alice'' ''f1'')))
      ''users.json'' ''bob'' ''f1'' =
      Inr (store (fst (delete_folder locked_fault example_config shared_world ''alice'' ''f1'')),
           owner example_folder = ''bob'' \<or> ''bob'' \<in> set (shared_with example_folder))"
    by blast
  then have still: "can_access_folder
      (store (fst (delete_folder locked_fault example_config shared_world ''alice'' ''f1'')))
      ''users.json'' ''bob'' ''f1'' =
      Inr (store (fst (delete_folder locked_fault example_config shared_world ''alice'' ''f1'')),
           True)"
    using sw by simp
  show ?thesis
    using before ex msg np [unfolded pj] gone view err still by (intro conjI)
qed

end
